theory Spec2Isabelle
  imports Main
begin

section \<open>Python values\<close>

text \<open>
  The parsers of \<^verbatim>\<open>src/queryplan/parsers\<close> are dynamically typed: a raw plan is what
  \<^verbatim>\<open>json.loads\<close> or a database driver hands over. A Python value is modelled by
  \<open>pyval\<close>; a dict is an association list (the first pair of a key is the one a
  lookup reads), a tuple or row is a list. A finite float \<open>Finite m e\<close> is the number
  \<open>m * 2 ^ e\<close> (every binary64 number has this form; the sign of zero is not kept).
  Strings are ASCII: \<open>lower\<close> and \<open>upper\<close> change the 26 letters only.
\<close>

datatype pyfloat = Finite int int | PosInf | NegInf | NaN

datatype pyval =
    PNone
  | PBool bool
  | PInt int
  | PFloat pyfloat
  | PStr string
  | PList "pyval list"
  | PDict "(string \<times> pyval) list"

text \<open>
  Exceptions are values. \<open>NoRelOpFound\<close> and \<open>NoRootIdentified\<close> are the two
  \<^verbatim>\<open>ValueError\<close>s the SQL Server parser raises itself (lines 22 and 171 of
  \<^verbatim>\<open>sqlserverparser.py\<close>); \<open>ValueError\<close> is the one a built-in raises.
  \<open>ParseError\<close> is what \<^verbatim>\<open>ET.fromstring\<close> raises on text that is not XML, and
  \<open>RecursionError\<close> what the interpreter raises when the builders nest deeper
  than its stack allows.
\<close>

datatype error =
    AttributeError
  | TypeError
  | ValueError
  | KeyError
  | IndexError
  | OverflowError
  | RecursionError
  | ParseError
  | NoRelOpFound
  | NoRootIdentified

definition ebind :: "error + 'a \<Rightarrow> ('a \<Rightarrow> error + 'b) \<Rightarrow> error + 'b" where
  "ebind m f = (case m of Inl e \<Rightarrow> Inl e | Inr x \<Rightarrow> f x)"

subsection \<open>Strings\<close>

definition upper_letters :: string where
  "upper_letters = ''ABCDEFGHIJKLMNOPQRSTUVWXYZ''"

definition lower_letters :: string where
  "lower_letters = ''abcdefghijklmnopqrstuvwxyz''"

definition lower_char :: "char \<Rightarrow> char" where
  "lower_char c = (case map_of (zip upper_letters lower_letters) c of Some l \<Rightarrow> l | None \<Rightarrow> c)"

definition upper_char :: "char \<Rightarrow> char" where
  "upper_char c = (case map_of (zip lower_letters upper_letters) c of Some u \<Rightarrow> u | None \<Rightarrow> c)"

definition lower :: "string \<Rightarrow> string" where
  "lower s = map lower_char s"

definition upper :: "string \<Rightarrow> string" where
  "upper s = map upper_char s"

fun startswith :: "string \<Rightarrow> string \<Rightarrow> bool" where
  "startswith s [] = True"
| "startswith [] (p # ps) = False"
| "startswith (c # cs) (p # ps) = (c = p \<and> startswith cs ps)"

text \<open>\<open>contains p s\<close> is Python's \<^verbatim>\<open>p in s\<close> on two strings.\<close>

fun contains :: "string \<Rightarrow> string \<Rightarrow> bool" where
  "contains p [] = (p = [])"
| "contains p (c # cs) = (startswith (c # cs) p \<or> contains p cs)"

text \<open>
  The white space \<^verbatim>\<open>str.strip\<close>, \<^verbatim>\<open>int\<close>, \<^verbatim>\<open>float\<close> and the pattern \<^verbatim>\<open>\s\<close> skip:
  the characters 9 to 13, 28 to 31 and the blank. Python skips further characters
  beyond ASCII (U+0085 and U+00A0 among them), which do not occur in the strings
  modelled here.
\<close>

definition is_space :: "char \<Rightarrow> bool" where
  "is_space c = (c \<in> set [CHR 0x09, CHR 0x0A, CHR 0x0B, CHR 0x0C, CHR 0x0D,
                            CHR 0x1C, CHR 0x1D, CHR 0x1E, CHR 0x1F, CHR '' ''])"

definition strip :: "string \<Rightarrow> string" where
  "strip s = rev (dropWhile is_space (rev (dropWhile is_space s)))"

definition removeprefix :: "string \<Rightarrow> string \<Rightarrow> string" where
  "removeprefix s p = (if startswith s p then drop (length p) s else s)"

text \<open>\<open>split_on c s\<close> is \<^verbatim>\<open>s.split(c)\<close> and \<open>join_with c\<close> is \<^verbatim>\<open>c.join\<close>, for a one-character separator.\<close>

fun split_on :: "char \<Rightarrow> string \<Rightarrow> string list" where
  "split_on sep [] = [[]]"
| "split_on sep (c # cs) =
     (if c = sep then [] # split_on sep cs
      else (case split_on sep cs of [] \<Rightarrow> [[c]] | w # ws \<Rightarrow> (c # w) # ws))"

fun join_with :: "char \<Rightarrow> string list \<Rightarrow> string" where
  "join_with sep [] = []"
| "join_with sep [w] = w"
| "join_with sep (w # v # ws) = w @ sep # join_with sep (v # ws)"

definition digit_val :: "char \<Rightarrow> nat option" where
  "digit_val c = map_of (zip ''0123456789'' [0, 1, 2, 3, 4, 5, 6, 7, 8, 9]) c"

definition is_digit :: "char \<Rightarrow> bool" where
  "is_digit c = (digit_val c \<noteq> None)"

definition digit_char :: "nat \<Rightarrow> char" where
  "digit_char n = ''0123456789'' ! (n mod 10)"

fun digits_of :: "nat \<Rightarrow> string" where
  "digits_of n = (if n < 10 then [digit_char n] else digits_of (n div 10) @ [digit_char n])"

declare digits_of.simps [simp del]

text \<open>\<open>str_of_int\<close> is \<^verbatim>\<open>str\<close> of an \<^verbatim>\<open>int\<close>.\<close>

definition str_of_int :: "int \<Rightarrow> string" where
  "str_of_int i = (if i < 0 then CHR ''-'' # digits_of (nat (- i)) else digits_of (nat i))"

subsection \<open>Numbers\<close>

text \<open>
  \<open>digit_part s\<close> gives the digits of \<open>s\<close> when \<open>s\<close> is a digit part of Python's
  number grammar (digits, with single underscores between two digits), and \<open>None\<close>
  otherwise.
\<close>

fun digit_part :: "string \<Rightarrow> nat list option" where
  "digit_part [] = None"
| "digit_part [c] = map_option (\<lambda>d. [d]) (digit_val c)"
| "digit_part (c # u # cs) =
     (case digit_val c of
        None \<Rightarrow> None
      | Some d \<Rightarrow> map_option ((#) d) (if u = CHR ''_'' then digit_part cs else digit_part (u # cs)))"

definition nat_of_digits :: "nat list \<Rightarrow> nat" where
  "nat_of_digits ds = foldl (\<lambda>a d. 10 * a + d) 0 ds"

definition split_sign :: "string \<Rightarrow> bool \<times> string" where
  "split_sign s =
     (case s of
        [] \<Rightarrow> (False, [])
      | c # cs \<Rightarrow> if c = CHR ''-'' then (True, cs) else if c = CHR ''+'' then (False, cs) else (False, s))"

text \<open>
  \<open>int_of_str\<close> is \<^verbatim>\<open>int\<close> of a string, \<open>None\<close> where it raises \<^verbatim>\<open>ValueError\<close>. The limit
  on the number of digits (4300 by default since Python 3.11, above which \<^verbatim>\<open>int\<close> also
  raises \<^verbatim>\<open>ValueError\<close>) is not modelled.
\<close>

definition int_of_str :: "string \<Rightarrow> int option" where
  "int_of_str s =
     (case split_sign (strip s) of
        (neg, body) \<Rightarrow>
          (case digit_part body of
             None \<Rightarrow> None
           | Some ds \<Rightarrow> Some (if neg then - int (nat_of_digits ds) else int (nat_of_digits ds))))"

fun bit_length :: "nat \<Rightarrow> nat" where
  "bit_length n = (if n = 0 then 0 else Suc (bit_length (n div 2)))"

declare bit_length.simps [simp del]

text \<open>\<open>scale_le D e N\<close> is \<open>D * 2 ^ e \<le> N\<close> for an integer exponent.\<close>

definition scale_le :: "nat \<Rightarrow> int \<Rightarrow> nat \<Rightarrow> bool" where
  "scale_le D e N = (if 0 \<le> e then D * 2 ^ nat e \<le> N else D \<le> N * 2 ^ nat (- e))"

definition floor_log2 :: "nat \<Rightarrow> nat \<Rightarrow> int" where
  "floor_log2 N D =
     (let e = int (bit_length N) - int (bit_length D) in if scale_le D e N then e else e - 1)"

definition round_half_even :: "nat \<Rightarrow> nat \<Rightarrow> nat" where
  "round_half_even a b =
     (let q = a div b; r = a mod b
      in if 2 * r < b then q else if b < 2 * r then q + 1 else if even q then q else q + 1)"

text \<open>
  \<open>round_to_double N D\<close> is the binary64 number nearest to \<open>N / D\<close> (ties to the even
  mantissa, 53 bits, exponents from \<open>-1074\<close>), or \<open>PosInf\<close> beyond the largest one.
\<close>

definition round_to_double :: "nat \<Rightarrow> nat \<Rightarrow> pyfloat" where
  "round_to_double N D =
     (if N = 0 then Finite 0 0
      else
        let ex = max (floor_log2 N D - 52) (- 1074);
            m = (if 0 \<le> ex then round_half_even N (D * 2 ^ nat ex)
                 else round_half_even (N * 2 ^ nat (- ex)) D)
        in if 971 < ex \<or> (ex = 971 \<and> 2 ^ 53 \<le> m) then PosInf else Finite (int m) ex)"

fun fneg :: "pyfloat \<Rightarrow> pyfloat" where
  "fneg (Finite m e) = Finite (- m) e"
| "fneg PosInf = NegInf"
| "fneg NegInf = PosInf"
| "fneg NaN = NaN"

text \<open>
  A decimal literal \<open>ip . fp e ex\<close>: the digits of the integer and fraction parts and
  the exponent give \<open>N / D\<close> with \<open>D\<close> a power of ten.
\<close>

definition decimal_to_double :: "nat list \<Rightarrow> nat list \<Rightarrow> int \<Rightarrow> pyfloat" where
  "decimal_to_double ip fp ex =
     (let n = nat_of_digits (ip @ fp); k = ex - int (length fp)
      in if 0 \<le> k then round_to_double (n * 10 ^ nat k) 1 else round_to_double n (10 ^ nat (- k)))"

definition opt_digit_part :: "string \<Rightarrow> nat list option" where
  "opt_digit_part s = (if s = [] then Some [] else digit_part s)"

definition parse_mantissa :: "string \<Rightarrow> (nat list \<times> nat list) option" where
  "parse_mantissa s =
     (let ip = takeWhile (\<lambda>c. c \<noteq> CHR ''.'') s; rest = dropWhile (\<lambda>c. c \<noteq> CHR ''.'') s
      in case rest of
           [] \<Rightarrow> map_option (\<lambda>ds. (ds, [])) (digit_part ip)
         | dot # fp \<Rightarrow>
             (if ip = [] \<and> fp = [] then None
              else (case (opt_digit_part ip, opt_digit_part fp) of
                      (Some a, Some b) \<Rightarrow> Some (a, b)
                    | _ \<Rightarrow> None)))"

definition parse_exponent :: "string \<Rightarrow> int option" where
  "parse_exponent s =
     (case s of
        [] \<Rightarrow> Some 0
      | e # rest \<Rightarrow>
          (case split_sign rest of
             (neg, body) \<Rightarrow>
               (case digit_part body of
                  None \<Rightarrow> None
                | Some ds \<Rightarrow> Some (if neg then - int (nat_of_digits ds) else int (nat_of_digits ds)))))"

text \<open>\<open>float_of_str\<close> is \<^verbatim>\<open>float\<close> of a string, \<open>None\<close> where it raises \<^verbatim>\<open>ValueError\<close>.\<close>

definition float_of_str :: "string \<Rightarrow> pyfloat option" where
  "float_of_str s =
     (case split_sign (strip s) of
        (neg, body) \<Rightarrow>
          (let sgn = (\<lambda>f. if neg then fneg f else f);
               not_e = (\<lambda>c. c \<noteq> CHR ''e'' \<and> c \<noteq> CHR ''E'')
           in if lower body = ''inf'' \<or> lower body = ''infinity'' then Some (sgn PosInf)
              else if lower body = ''nan'' then Some NaN
              else (case (parse_mantissa (takeWhile not_e body), parse_exponent (dropWhile not_e body)) of
                      (Some (ip, fp), Some ex) \<Rightarrow> Some (sgn (decimal_to_double ip fp ex))
                    | _ \<Rightarrow> None)))"

text \<open>\<^verbatim>\<open>int\<close> of a float truncates towards zero; it raises on an infinity and on a NaN.\<close>

fun int_of_float :: "pyfloat \<Rightarrow> error + int" where
  "int_of_float (Finite m e) =
     Inr (if 0 \<le> e then m * 2 ^ nat e
          else if 0 \<le> m then m div 2 ^ nat (- e)
          else - ((- m) div 2 ^ nat (- e)))"
| "int_of_float PosInf = Inl OverflowError"
| "int_of_float NegInf = Inl OverflowError"
| "int_of_float NaN = Inl ValueError"

text \<open>\<^verbatim>\<open>float\<close> of an \<^verbatim>\<open>int\<close> rounds, and raises when the integer is too large.\<close>

definition float_of_int :: "int \<Rightarrow> error + pyfloat" where
  "float_of_int i =
     (case round_to_double (nat \<bar>i\<bar>) 1 of
        Finite m e \<Rightarrow> Inr (if i < 0 then Finite (- m) e else Finite m e)
      | _ \<Rightarrow> Inl OverflowError)"

text \<open>The built-ins \<^verbatim>\<open>int(v)\<close> and \<^verbatim>\<open>float(v)\<close>.\<close>

fun py_int :: "pyval \<Rightarrow> error + int" where
  "py_int PNone = Inl TypeError"
| "py_int (PBool b) = Inr (if b then 1 else 0)"
| "py_int (PInt i) = Inr i"
| "py_int (PFloat f) = int_of_float f"
| "py_int (PStr s) = (case int_of_str s of None \<Rightarrow> Inl ValueError | Some i \<Rightarrow> Inr i)"
| "py_int (PList xs) = Inl TypeError"
| "py_int (PDict kvs) = Inl TypeError"

fun py_float :: "pyval \<Rightarrow> error + pyfloat" where
  "py_float PNone = Inl TypeError"
| "py_float (PBool b) = Inr (Finite (if b then 1 else 0) 0)"
| "py_float (PInt i) = float_of_int i"
| "py_float (PFloat f) = Inr f"
| "py_float (PStr s) = (case float_of_str s of None \<Rightarrow> Inl ValueError | Some f \<Rightarrow> Inr f)"
| "py_float (PList xs) = Inl TypeError"
| "py_float (PDict kvs) = Inl TypeError"

subsection \<open>Truthiness, dicts, sequences\<close>

fun truthy :: "pyval \<Rightarrow> bool" where
  "truthy PNone = False"
| "truthy (PBool b) = b"
| "truthy (PInt i) = (i \<noteq> 0)"
| "truthy (PFloat f) = (case f of Finite m e \<Rightarrow> m \<noteq> 0 | _ \<Rightarrow> True)"
| "truthy (PStr s) = (s \<noteq> [])"
| "truthy (PList xs) = (xs \<noteq> [])"
| "truthy (PDict kvs) = (kvs \<noteq> [])"

text \<open>\<open>py_or a b\<close> is \<^verbatim>\<open>a or b\<close>: the first operand when it is truthy, else the second.\<close>

definition py_or :: "pyval \<Rightarrow> pyval \<Rightarrow> pyval" where
  "py_or a b = (if truthy a then a else b)"

definition has_key :: "(string \<times> pyval) list \<Rightarrow> string \<Rightarrow> bool" where
  "has_key d k = (map_of d k \<noteq> None)"

text \<open>\<open>dict_get d k\<close> is \<^verbatim>\<open>d.get(k)\<close> and \<open>dict_get_default d k v\<close> is \<^verbatim>\<open>d.get(k, v)\<close>.\<close>

definition dict_get :: "(string \<times> pyval) list \<Rightarrow> string \<Rightarrow> pyval" where
  "dict_get d k = (case map_of d k of None \<Rightarrow> PNone | Some v \<Rightarrow> v)"

definition dict_get_default :: "(string \<times> pyval) list \<Rightarrow> string \<Rightarrow> pyval \<Rightarrow> pyval" where
  "dict_get_default d k v = (case map_of d k of None \<Rightarrow> v | Some w \<Rightarrow> w)"

text \<open>\<open>dict_set d k v\<close> is \<^verbatim>\<open>d[k] = v\<close>: a new key goes last, an old one keeps its place.\<close>

definition dict_set :: "(string \<times> pyval) list \<Rightarrow> string \<Rightarrow> pyval \<Rightarrow> (string \<times> pyval) list" where
  "dict_set d k v =
     (if has_key d k then map (\<lambda>kv. if fst kv = k then (k, v) else kv) d else d @ [(k, v)])"

definition dict_pop :: "(string \<times> pyval) list \<Rightarrow> string \<Rightarrow> (string \<times> pyval) list" where
  "dict_pop d k = filter (\<lambda>kv. fst kv \<noteq> k) d"

text \<open>\<open>first_truthy_key d ks\<close>: the loop \<^verbatim>\<open>for key in ks: if key in d and d[key]: return d[key]\<close>.\<close>

fun first_truthy_key :: "(string \<times> pyval) list \<Rightarrow> string list \<Rightarrow> pyval option" where
  "first_truthy_key d [] = None"
| "first_truthy_key d (k # ks) =
     (if has_key d k \<and> truthy (dict_get d k) then Some (dict_get d k) else first_truthy_key d ks)"

text \<open>\<open>py_index0 v\<close> is \<^verbatim>\<open>v[0]\<close>, \<open>py_len v\<close> is \<^verbatim>\<open>len(v)\<close>, \<open>py_iter v\<close> the items \<^verbatim>\<open>for x in v\<close> visits.\<close>

fun py_index0 :: "pyval \<Rightarrow> error + pyval" where
  "py_index0 (PList xs) = (case xs of [] \<Rightarrow> Inl IndexError | x # _ \<Rightarrow> Inr x)"
| "py_index0 (PStr s) = (case s of [] \<Rightarrow> Inl IndexError | c # _ \<Rightarrow> Inr (PStr [c]))"
| "py_index0 (PDict kvs) = Inl KeyError"
| "py_index0 v = Inl TypeError"

fun py_len :: "pyval \<Rightarrow> error + nat" where
  "py_len (PList xs) = Inr (length xs)"
| "py_len (PStr s) = Inr (length s)"
| "py_len (PDict kvs) = Inr (length kvs)"
| "py_len v = Inl TypeError"

fun py_iter :: "pyval \<Rightarrow> error + pyval list" where
  "py_iter (PList xs) = Inr xs"
| "py_iter (PStr s) = Inr (map (\<lambda>c. PStr [c]) s)"
| "py_iter (PDict kvs) = Inr (map (\<lambda>kv. PStr (fst kv)) kvs)"
| "py_iter v = Inl TypeError"

text \<open>
  The parser object: its flag, and the text Python's \<^verbatim>\<open>str\<close> gives for a float, a list
  or a dict (their \<^verbatim>\<open>repr\<close>), which is a parameter here and not defined: whatever is
  proved holds for every such text. The counter \<^verbatim>\<open>op_counter\<close> is passed as a number.
\<close>

record config =
  include_system_representation :: bool
  repr_text :: "pyval \<Rightarrow> string"

definition py_str :: "config \<Rightarrow> pyval \<Rightarrow> string" where
  "py_str cfg v =
     (case v of
        PStr s \<Rightarrow> s
      | PNone \<Rightarrow> ''None''
      | PBool b \<Rightarrow> (if b then ''True'' else ''False'')
      | PInt i \<Rightarrow> str_of_int i
      | _ \<Rightarrow> repr_text cfg v)"

section \<open>The operator taxonomy (queryoperator.py)\<close>

datatype OperatorType =
    ResultType | TableScanType | InlineTableType | TempType | PipelineBreakerScanType
  | SelectType | MapType | SortType | GroupByType | JoinType
  | GroupJoinType | EarlyProbeType | SetOperationType | WindowType
  | IterationType | IterationScanType | ArrayUnnestType | RegexSplitType
  | SubqueryType | CustomOperatorType

text \<open>
  The operator classes the two parsers construct, each with the fields its
  \<^verbatim>\<open>__init__\<close> sets: \<open>TableScan operator_id table_name table_size type\<close>,
  \<open>Sort operator_id limit\<close>, \<open>GroupBy operator_id method\<close>,
  \<open>Join operator_id type method\<close>, \<open>SetOperation operator_id type active\<close>,
  \<open>CustomOperator name operator_id limit\<close>; \<open>MapOperator\<close> is the class \<^verbatim>\<open>Map\<close>.
  A field holds any Python value, \<open>PNone\<close> for \<^verbatim>\<open>None\<close>.
\<close>

datatype QueryOperator =
    Result pyval
  | TableScan pyval pyval pyval pyval
  | Select pyval
  | MapOperator pyval
  | Sort pyval pyval
  | GroupBy pyval pyval
  | Join pyval pyval pyval
  | SetOperation pyval pyval bool
  | ArrayUnnest pyval
  | CustomOperator pyval pyval pyval

fun operator_type :: "QueryOperator \<Rightarrow> OperatorType" where
  "operator_type (Result i) = ResultType"
| "operator_type (TableScan i n s t) = TableScanType"
| "operator_type (Select i) = SelectType"
| "operator_type (MapOperator i) = MapType"
| "operator_type (Sort i l) = SortType"
| "operator_type (GroupBy i m) = GroupByType"
| "operator_type (Join i t m) = JoinType"
| "operator_type (SetOperation i t a) = SetOperationType"
| "operator_type (ArrayUnnest i) = ArrayUnnestType"
| "operator_type (CustomOperator n i l) = CustomOperatorType"

fun operator_id :: "QueryOperator \<Rightarrow> pyval" where
  "operator_id (Result i) = i"
| "operator_id (TableScan i n s t) = i"
| "operator_id (Select i) = i"
| "operator_id (MapOperator i) = i"
| "operator_id (Sort i l) = i"
| "operator_id (GroupBy i m) = i"
| "operator_id (Join i t m) = i"
| "operator_id (SetOperation i t a) = i"
| "operator_id (ArrayUnnest i) = i"
| "operator_id (CustomOperator n i l) = i"

text \<open>
  The \<^verbatim>\<open>try\<close> block of \<^verbatim>\<open>Sort.fill\<close> and \<^verbatim>\<open>CustomOperator.fill\<close> (lines 177-180, 183-186,
  415-418, 421-424): \<^verbatim>\<open>int(limit_val)\<close> unless the value is \<^verbatim>\<open>None\<close>, and the value
  itself when \<^verbatim>\<open>int\<close> raises.
\<close>

definition coerce_limit :: "pyval \<Rightarrow> pyval" where
  "coerce_limit limit_val =
     (if limit_val = PNone then PNone
      else (case py_int limit_val of Inr i \<Rightarrow> PInt i | Inl e \<Rightarrow> limit_val))"

section \<open>The plan tree\<close>

text \<open>
  An XML element as \<^verbatim>\<open>xml.etree.ElementTree\<close> holds it: its tag, its attributes and
  its child elements, in document order (text between elements is never read).
\<close>

datatype xml = Element string "(string \<times> string) list" "xml list"

text \<open>
  The system representation of a node: nothing, the copied raw JSON node, the XML
  element (standing for the text \<^verbatim>\<open>ET.tostring\<close> makes of it), the row's dict, or the
  literal text of the synthetic root.
\<close>

datatype sysrep =
    NoRepresentation
  | JsonRepresentation pyval
  | XmlRepresentation xml
  | RowRepresentation "(string \<times> pyval) list"
  | TextRepresentation string

text \<open>
  Modelled from the spec: \<^verbatim>\<open>queryplan/plannode.py\<close> and \<^verbatim>\<open>queryplan/queryplan.py\<close> are
  not among the source files. The spec's data model: a \<^emph>\<open>LeafNode\<close> is an operator, an
  estimated cardinality, an exact cardinality and an optional system representation;
  an \<^emph>\<open>InnerNode\<close> is the same plus an ordered sequence of child nodes; a query plan
  is the query text plus a root node. The positional order (operator, estimated,
  exact, children) is the one the parsers' calls use.
\<close>

datatype PlanNode =
    LeafNode QueryOperator "int option" "int option" sysrep
  | InnerNode QueryOperator "int option" "int option" "PlanNode list" sysrep

fun operator :: "PlanNode \<Rightarrow> QueryOperator" where
  "operator (LeafNode op est ex sr) = op"
| "operator (InnerNode op est ex cs sr) = op"

fun estimated_cardinality :: "PlanNode \<Rightarrow> int option" where
  "estimated_cardinality (LeafNode op est ex sr) = est"
| "estimated_cardinality (InnerNode op est ex cs sr) = est"

fun exact_cardinality :: "PlanNode \<Rightarrow> int option" where
  "exact_cardinality (LeafNode op est ex sr) = ex"
| "exact_cardinality (InnerNode op est ex cs sr) = ex"

fun children :: "PlanNode \<Rightarrow> PlanNode list" where
  "children (LeafNode op est ex sr) = []"
| "children (InnerNode op est ex cs sr) = cs"

fun is_leaf_node :: "PlanNode \<Rightarrow> bool" where
  "is_leaf_node (LeafNode op est ex sr) = True"
| "is_leaf_node (InnerNode op est ex cs sr) = False"

record QueryPlan =
  qp_text :: string
  qp_plan :: PlanNode

text \<open>The root both parsers add (\<^verbatim>\<open>InnerNode(Result(-1), ..., children=[plan], ...)\<close>).\<close>

definition result_root :: "PlanNode \<Rightarrow> PlanNode" where
  "result_root p =
     InnerNode (Result (PInt (- 1))) (estimated_cardinality p) (exact_cardinality p) [p]
       (TextRepresentation ''// added by benchy'')"

text \<open>
  The list comprehension \<^verbatim>\<open>[build(child) for child in children]\<close>: the children are
  built in order, each starting from the counter the one before left.
\<close>

fun build_children ::
  "('a \<Rightarrow> nat \<Rightarrow> error + (PlanNode \<times> nat)) \<Rightarrow> 'a list \<Rightarrow> nat \<Rightarrow> error + (PlanNode list \<times> nat)" where
  "build_children f [] c = Inr ([], c)"
| "build_children f (x # xs) c =
     (case f x c of
        Inl e \<Rightarrow> Inl e
      | Inr (n, c1) \<Rightarrow>
          (case build_children f xs c1 of
             Inl e \<Rightarrow> Inl e
           | Inr (ns, c2) \<Rightarrow> Inr (n # ns, c2)))"

section \<open>The ClickHouse parser (clickhouseparser.py)\<close>

definition child_keys :: "string list" where
  "child_keys = [''Plans'', ''plans'', ''Children'', ''children'', ''sources'']"

definition name_keys :: "string list" where
  "name_keys = [''Node Type'', ''NodeType'', ''PlanStep'', ''Plan Node Type'', ''Name'', ''type'', ''Step'']"

definition id_keys :: "string list" where
  "id_keys = [''PlanNodeId'', ''Plan Node Id'', ''PlanNodeID'', ''NodeId'', ''Node ID'']"

text \<open>\<^verbatim>\<open>_extract_children\<close> (lines 91-97): the value found, which need not be a list.\<close>

definition extract_children :: "pyval \<Rightarrow> pyval" where
  "extract_children plan =
     (case plan of
        PDict d \<Rightarrow> (case first_truthy_key d child_keys of Some v \<Rightarrow> v | None \<Rightarrow> PList [])
      | _ \<Rightarrow> PList [])"

text \<open>\<^verbatim>\<open>_extract_operator_name\<close> (lines 99-105).\<close>

definition extract_operator_name :: "config \<Rightarrow> pyval \<Rightarrow> pyval" where
  "extract_operator_name cfg plan =
     (case plan of
        PDict d \<Rightarrow>
          (case first_truthy_key d name_keys of
             Some v \<Rightarrow> v
           | None \<Rightarrow> dict_get_default d ''plan_node_name'' (PStr ''Unknown''))
      | _ \<Rightarrow> PStr (py_str cfg plan))"

text \<open>
  \<^verbatim>\<open>_extract_operator_id\<close> (lines 107-120): the id and the counter afterwards. The
  first id key whose value is not \<^verbatim>\<open>None\<close> decides; \<^verbatim>\<open>except Exception\<close> returns the
  raw value.
\<close>

fun first_id_key :: "(string \<times> pyval) list \<Rightarrow> string list \<Rightarrow> pyval option" where
  "first_id_key d [] = None"
| "first_id_key d (k # ks) =
     (if has_key d k \<and> dict_get d k \<noteq> PNone then Some (dict_get d k) else first_id_key d ks)"

definition extract_operator_id :: "pyval \<Rightarrow> nat \<Rightarrow> pyval \<times> nat" where
  "extract_operator_id plan c =
     (case plan of
        PDict d \<Rightarrow>
          (case first_id_key d id_keys of
             Some v \<Rightarrow> ((case py_int v of Inr i \<Rightarrow> PInt i | Inl e \<Rightarrow> v), c)
           | None \<Rightarrow> (PInt (int c), Suc c))
      | _ \<Rightarrow> (PInt (int c), Suc c))"

text \<open>
  \<^verbatim>\<open>_safe_int\<close> (lines 133-139): \<^verbatim>\<open>int(float(value))\<close> for a string, \<^verbatim>\<open>int(value)\<close>
  otherwise; \<^verbatim>\<open>TypeError\<close> and \<^verbatim>\<open>ValueError\<close> are caught, any other exception leaves.
\<close>

definition coerce_int :: "pyval \<Rightarrow> error + int" where
  "coerce_int v = (case v of PStr s \<Rightarrow> ebind (py_float v) int_of_float | _ \<Rightarrow> py_int v)"

definition safe_int :: "pyval \<Rightarrow> error + int option" where
  "safe_int v =
     (case coerce_int v of
        Inr i \<Rightarrow> Inr (Some i)
      | Inl e \<Rightarrow> if e = TypeError \<or> e = ValueError then Inr None else Inl e)"


definition estimated_keys :: "string list" where
  "estimated_keys = [''row_count'', ''estimated_rows'', ''rowCount'', ''rows_before_limit_at_least'']"

definition exact_keys :: "string list" where
  "exact_keys = [''rows'', ''rows_before_limit'', ''output_rows'']"

text \<open>\<open>or_chain d ks\<close> is \<^verbatim>\<open>d.get(k1) or d.get(k2) or ...\<close> over a non-empty list of keys.\<close>

fun or_chain :: "(string \<times> pyval) list \<Rightarrow> string list \<Rightarrow> pyval" where
  "or_chain d [] = PNone"
| "or_chain d [k] = dict_get d k"
| "or_chain d (k # j # ks) = py_or (dict_get d k) (or_chain d (j # ks))"

text \<open>\<^verbatim>\<open>_extract_cardinalities\<close> (lines 122-131), the pair (estimated, exact).\<close>

definition extract_cardinalities :: "pyval \<Rightarrow> error + (int option \<times> int option)" where
  "extract_cardinalities plan =
     (case plan of
        PDict d \<Rightarrow>
          (case py_or (or_chain d [''Statistics'', ''statistics'']) (PDict []) of
             PDict stats \<Rightarrow>
               ebind (safe_int (or_chain stats estimated_keys)) (\<lambda>estimated.
               ebind (safe_int (or_chain stats exact_keys)) (\<lambda>exact.
                 Inr (estimated, (if exact = None then estimated else exact))))
           | _ \<Rightarrow> Inl AttributeError)
      | _ \<Rightarrow> Inr (None, None))"

text \<open>
  \<^verbatim>\<open>create_empty_operator\<close> (lines 64-86). The name is whatever the raw node held;
  \<^verbatim>\<open>SetOperation.active\<close> starts \<^verbatim>\<open>True\<close>, every other field \<^verbatim>\<open>None\<close>.
\<close>

definition create_empty_operator :: "config \<Rightarrow> pyval \<Rightarrow> pyval \<Rightarrow> QueryOperator" where
  "create_empty_operator cfg operator_name oid =
     (let normalized = lower (py_str cfg operator_name)
      in if startswith normalized ''read'' then TableScan oid PNone PNone PNone
         else if startswith normalized ''aggregating'' \<or> startswith normalized ''group'' then GroupBy oid PNone
         else if startswith normalized ''sorting'' \<or> contains '' sort'' normalized
                 \<or> startswith normalized ''order by'' then Sort oid PNone
         else if contains ''join'' normalized then Join oid PNone PNone
         else if startswith normalized ''filter'' then Select oid
         else if normalized = ''arrayjoin'' \<or> normalized = ''array join'' then ArrayUnnest oid
         else if normalized = ''union'' \<or> normalized = ''intersect'' \<or> normalized = ''except''
              then SetOperation oid (PStr normalized) True
         else if startswith normalized ''limit'' then CustomOperator (PStr ''Limit'') oid PNone
         else if startswith normalized ''projection'' \<or> startswith normalized ''expression''
              then MapOperator oid
         else CustomOperator operator_name oid PNone)"

definition limit_keys :: "string list" where
  "limit_keys = [''Limit'', ''limit'', ''rows_limit'', ''RowsRead'']"

text \<open>The ClickHouse branch of \<^verbatim>\<open>TableScan.fill\<close> (queryoperator.py, lines 90-105).\<close>

definition trim_table_name :: "pyval \<Rightarrow> pyval" where
  "trim_table_name t =
     (case t of
        PStr s \<Rightarrow>
          (if s \<noteq> [] \<and> 3 \<le> length (split_on CHR ''.'' s)
           then PStr (join_with CHR ''.'' (take 3 (split_on CHR ''.'' s))) else t)
      | _ \<Rightarrow> t)"

definition table_name_clickhouse :: "pyval \<Rightarrow> (string \<times> pyval) list \<Rightarrow> pyval" where
  "table_name_clickhouse table_name d =
     (let t1 = (case py_or (or_chain d [''Storage'', ''storage'']) (PDict []) of
                  PDict storage \<Rightarrow> dict_get storage ''Table''
                | _ \<Rightarrow> table_name);
          t2 = (if truthy t1 then t1 else dict_get d ''Table'');
          t3 = trim_table_name t2
      in if truthy t3 then t3
         else (case or_chain d [''Description'', ''description''] of
                 PStr description \<Rightarrow>
                   (if strip description \<noteq> []
                    then PStr (removeprefix (strip description) ''clickhouse.'') else t3)
               | _ \<Rightarrow> t3))"

text \<open>The ClickHouse branch of \<^verbatim>\<open>Join.fill\<close> (queryoperator.py, lines 287-316).\<close>

definition join_type_of_description :: "string \<Rightarrow> pyval" where
  "join_type_of_description description =
     (if contains ''left'' description then PStr ''leftouter''
      else if contains ''right'' description then PStr ''rightouter''
      else if contains ''full'' description then PStr ''fullouter''
      else if contains ''semi'' description then PStr ''semi''
      else if contains ''anti'' description then PStr ''anti''
      else if contains ''cross'' description then PStr ''cross''
      else if contains ''inner'' description then PStr ''inner''
      else if description \<noteq> [] then PStr ''inner''
      else PNone)"

definition join_method_of_algorithm :: "pyval \<Rightarrow> pyval \<Rightarrow> pyval" where
  "join_method_of_algorithm algorithm method =
     (case algorithm of
        PStr a \<Rightarrow>
          (if contains ''hash'' (lower a) then PStr ''hash''
           else if contains ''merge'' (lower a) then PStr ''merge''
           else if contains ''nested'' (lower a) \<or> contains ''loop'' (lower a) then PStr ''nl''
           else method)
      | _ \<Rightarrow> method)"

definition join_fill_clickhouse :: "config \<Rightarrow> pyval \<Rightarrow> pyval \<Rightarrow> (string \<times> pyval) list \<Rightarrow> pyval \<times> pyval" where
  "join_fill_clickhouse cfg ty method d =
     (let description = lower (py_str cfg (dict_get_default d ''Description'' (PStr [])));
          join_type = dict_get_default d ''Join'' (dict_get_default d ''join_type'' (dict_get d ''Type''));
          ty1 = (case join_type of PStr s \<Rightarrow> PStr (lower s) | _ \<Rightarrow> ty);
          ty2 = (if ty1 = PNone then join_type_of_description description else ty1)
      in (ty2, join_method_of_algorithm (or_chain d [''Algorithm'', ''algorithm'']) method))"

text \<open>
  \<^verbatim>\<open>operator.fill(json_plan, DBMSType.ClickHouse)\<close>: the ClickHouse branch of each
  class's \<^verbatim>\<open>fill\<close>. A class with no such branch leaves the operator as it is; a branch
  that calls \<^verbatim>\<open>plan.get\<close> raises \<^verbatim>\<open>AttributeError\<close> on a raw node that is not a dict.
\<close>

fun fill_clickhouse :: "config \<Rightarrow> QueryOperator \<Rightarrow> pyval \<Rightarrow> error + QueryOperator" where
  "fill_clickhouse cfg (TableScan i n s t) plan =
     (case plan of PDict d \<Rightarrow> Inr (TableScan i (table_name_clickhouse n d) s t) | _ \<Rightarrow> Inl AttributeError)"
| "fill_clickhouse cfg (Sort i l) plan =
     (case plan of PDict d \<Rightarrow> Inr (Sort i (coerce_limit (or_chain d limit_keys))) | _ \<Rightarrow> Inl AttributeError)"
| "fill_clickhouse cfg (GroupBy i m) plan =
     (case plan of PDict d \<Rightarrow> Inr (GroupBy i (or_chain d [''method'', ''Method''])) | _ \<Rightarrow> Inl AttributeError)"
| "fill_clickhouse cfg (Join i t m) plan =
     (case plan of
        PDict d \<Rightarrow> (case join_fill_clickhouse cfg t m d of (t', m') \<Rightarrow> Inr (Join i t' m'))
      | _ \<Rightarrow> Inl AttributeError)"
| "fill_clickhouse cfg (CustomOperator n i l) plan =
     (if n = PStr ''Limit''
      then (case plan of
              PDict d \<Rightarrow> Inr (CustomOperator n i (coerce_limit (or_chain d limit_keys)))
            | _ \<Rightarrow> Inl AttributeError)
      else Inr (CustomOperator n i l))"
| "fill_clickhouse cfg op plan = Inr op"

text \<open>
  Lines 43-48: the copy of the raw node without its child keys. A dict and a list
  have \<^verbatim>\<open>copy\<close>; \<^verbatim>\<open>list.pop\<close> with a string raises \<^verbatim>\<open>TypeError\<close>.
\<close>

definition system_representation :: "config \<Rightarrow> pyval \<Rightarrow> error + sysrep" where
  "system_representation cfg json_plan =
     (if include_system_representation cfg
      then (case json_plan of
              PDict d \<Rightarrow> Inr (JsonRepresentation (PDict (foldl dict_pop d child_keys)))
            | PList xs \<Rightarrow>
                (if list_ex (\<lambda>k. PStr k \<in> set xs) child_keys then Inl TypeError
                 else Inr (JsonRepresentation (PList xs)))
            | _ \<Rightarrow> Inl AttributeError)
      else Inr NoRepresentation)"

text \<open>Line 51: a \<^verbatim>\<open>CustomOperator\<close> whose name is \<^verbatim>\<open>"Limit"\<close>; and its \<^verbatim>\<open>limit\<close> field.\<close>

fun is_limit :: "QueryOperator \<Rightarrow> bool" where
  "is_limit (CustomOperator n i l) = (n = PStr ''Limit'')"
| "is_limit op = False"

fun limit_of :: "QueryOperator \<Rightarrow> pyval" where
  "limit_of (CustomOperator n i l) = l"
| "limit_of (Sort i l) = l"
| "limit_of op = PNone"

text \<open>Lines 54-55: \<^verbatim>\<open>merged_child.operator.limit = operator.limit\<close> when that is not \<^verbatim>\<open>None\<close>.\<close>

fun set_limit :: "pyval \<Rightarrow> QueryOperator \<Rightarrow> QueryOperator" where
  "set_limit l (Sort i old) = Sort i l"
| "set_limit l op = op"

fun copy_limit :: "QueryOperator \<Rightarrow> PlanNode \<Rightarrow> PlanNode" where
  "copy_limit op (LeafNode sop est ex sr) =
     (if limit_of op = PNone then LeafNode sop est ex sr else LeafNode (set_limit (limit_of op) sop) est ex sr)"
| "copy_limit op (InnerNode sop est ex cs sr) =
     (if limit_of op = PNone then InnerNode sop est ex cs sr
      else InnerNode (set_limit (limit_of op) sop) est ex cs sr)"

text \<open>
  Lines 58-62: a leaf when \<^verbatim>\<open>len(self._extract_children(json_plan)) == 0\<close>, else an inner
  node over the children built in order by \<open>build\<close>.
\<close>

definition finish_node ::
  "(pyval \<Rightarrow> nat \<Rightarrow> error + (PlanNode \<times> nat)) \<Rightarrow> QueryOperator \<Rightarrow> int option \<Rightarrow> int option \<Rightarrow> sysrep
     \<Rightarrow> pyval \<Rightarrow> nat \<Rightarrow> error + (PlanNode \<times> nat)" where
  "finish_node build op estimated exact sr children_nodes c =
     ebind (py_len children_nodes) (\<lambda>n.
       if n = 0 then Inr (LeafNode op estimated exact sr, c)
       else ebind (py_iter children_nodes) (\<lambda>kids.
            ebind (build_children build kids c) (\<lambda>(cs, c').
              Inr (InnerNode op estimated exact cs sr, c'))))"

text \<open>
  \<^verbatim>\<open>build_initial_plan\<close> (lines 24-62). \<open>depth\<close> is how many nested calls the
  interpreter still allows; \<open>c\<close> is \<^verbatim>\<open>op_counter\<close>. When the child of a Limit does not
  build to a Sort, the child is built a second time (line 61), from the counter the
  first build left.
\<close>

fun build_initial_plan :: "config \<Rightarrow> nat \<Rightarrow> pyval \<Rightarrow> nat \<Rightarrow> error + (PlanNode \<times> nat)" where
  "build_initial_plan cfg 0 json_plan c = Inl RecursionError"
| "build_initial_plan cfg (Suc depth) json_plan c =
     (case extract_operator_id json_plan c of
        (oid, c1) \<Rightarrow>
          (let operator_name = extract_operator_name cfg json_plan;
               normalized_name = lower (py_str cfg operator_name);
               children_nodes = extract_children json_plan
           in if startswith normalized_name ''expression'' \<and> truthy children_nodes
              then ebind (py_index0 children_nodes) (\<lambda>child. build_initial_plan cfg depth child c1)
              else
                ebind (fill_clickhouse cfg
                         (create_empty_operator cfg
                            (if startswith normalized_name ''expression'' then PStr ''Map'' else operator_name)
                            oid)
                         json_plan) (\<lambda>op.
                ebind (extract_cardinalities json_plan) (\<lambda>(estimated, exact).
                ebind (system_representation cfg json_plan) (\<lambda>sr.
                  if is_limit op \<and> truthy children_nodes
                  then ebind (py_index0 children_nodes) (\<lambda>child.
                       ebind (build_initial_plan cfg depth child c1) (\<lambda>(merged_child, c2).
                         if operator_type (operator merged_child) = SortType
                         then Inr (copy_limit op merged_child, c2)
                         else finish_node (build_initial_plan cfg depth) op estimated exact sr children_nodes c2))
                  else finish_node (build_initial_plan cfg depth) op estimated exact sr children_nodes c1)))))"

text \<open>
  \<^verbatim>\<open>parse_json_plan\<close> (lines 14-22): the plan and the counter afterwards. The payload
  must be a dict (\<^verbatim>\<open>json_plan.get\<close>).
\<close>

definition parse_json_plan :: "config \<Rightarrow> nat \<Rightarrow> string \<Rightarrow> pyval \<Rightarrow> nat \<Rightarrow> error + (QueryPlan \<times> nat)" where
  "parse_json_plan cfg depth query json_plan c =
     (case json_plan of
        PDict d \<Rightarrow>
          (let found = py_or (py_or (dict_get d ''Plan'') (dict_get d ''plan'')) json_plan;
               plan_root = (case found of
                              PList xs \<Rightarrow> (case xs of [] \<Rightarrow> PDict [] | x # _ \<Rightarrow> x)
                            | _ \<Rightarrow> found)
           in ebind (build_initial_plan cfg depth plan_root c) (\<lambda>(p, c').
                Inr (\<lparr>qp_text = query, qp_plan = result_root p\<rparr>, c')))
      | _ \<Rightarrow> Inl AttributeError)"

section \<open>The SQL Server parser (sqlserverparser.py)\<close>

subsection \<open>Elements\<close>

fun tag :: "xml \<Rightarrow> string" where
  "tag (Element t a cs) = t"

fun attrib :: "xml \<Rightarrow> (string \<times> string) list" where
  "attrib (Element t a cs) = a"

fun subelements :: "xml \<Rightarrow> xml list" where
  "subelements (Element t a cs) = cs"

text \<open>\<open>attrib_value e k\<close> is \<^verbatim>\<open>e.attrib.get(k)\<close> as a Python value.\<close>

definition attrib_value :: "xml \<Rightarrow> string \<Rightarrow> pyval" where
  "attrib_value e k = (case map_of (attrib e) k of None \<Rightarrow> PNone | Some v \<Rightarrow> PStr v)"

text \<open>\<^verbatim>\<open>e.findall(t)\<close> and \<^verbatim>\<open>e.find(t)\<close>: the children with that tag, and the first of them.\<close>

definition findall :: "xml \<Rightarrow> string \<Rightarrow> xml list" where
  "findall e t = filter (\<lambda>c. tag c = t) (subelements e)"

definition find_child :: "xml \<Rightarrow> string \<Rightarrow> xml option" where
  "find_child e t = (case findall e t of [] \<Rightarrow> None | c # _ \<Rightarrow> Some c)"

text \<open>
  The elements below \<open>e\<close> in document order, \<open>e\<close> itself not among them:
  \<^verbatim>\<open>root.find(".//RelOp")\<close> is the first of them whose tag is \<^verbatim>\<open>RelOp\<close>.
\<close>

fun descendants :: "xml \<Rightarrow> xml list" where
  "descendants (Element t a cs) = concat (map (\<lambda>c. c # descendants c) cs)"

definition find_relop :: "xml \<Rightarrow> xml option" where
  "find_relop root = (case filter (\<lambda>c. tag c = ''RelOp'') (descendants root) of [] \<Rightarrow> None | r # _ \<Rightarrow> Some r)"

text \<open>\<^verbatim>\<open>_extract_children\<close> (lines 174-182).\<close>

definition sqlserver_extract_children :: "xml \<Rightarrow> xml list" where
  "sqlserver_extract_children relop_elem =
     (case find_child relop_elem ''Children'' of
        Some children_elem \<Rightarrow> findall children_elem ''RelOp''
      | None \<Rightarrow> findall relop_elem ''RelOp'')"

subsection \<open>Helpers of both shapes\<close>

text \<open>\<^verbatim>\<open>_safe_int\<close> (lines 300-306): every exception is caught.\<close>

definition sqlserver_safe_int :: "pyval \<Rightarrow> int option" where
  "sqlserver_safe_int v =
     (if v = PNone then None
      else (case ebind (py_float v) int_of_float of Inr i \<Rightarrow> Some i | Inl e \<Rightarrow> None))"

definition int_option_value :: "int option \<Rightarrow> pyval" where
  "int_option_value x = (case x of None \<Rightarrow> PNone | Some i \<Rightarrow> PInt i)"

text \<open>Lines 44-47 and 151-154: the pair (estimated, exact) of a node.\<close>

definition sqlserver_cardinalities :: "pyval \<Rightarrow> pyval \<Rightarrow> int option \<times> int option" where
  "sqlserver_cardinalities estimate_rows actual_rows =
     (let estimated = sqlserver_safe_int estimate_rows; exact = sqlserver_safe_int actual_rows
      in (estimated, (if exact = None then estimated else exact)))"

text \<open>\<^verbatim>\<open>_decide_operator_name\<close> (lines 195-220).\<close>

definition scan_prefixed :: "string \<Rightarrow> bool" where
  "scan_prefixed name =
     (startswith name ''table scan'' \<or> startswith name ''index scan''
      \<or> startswith name ''index seek'' \<or> startswith name ''clustered index'')"

definition decide_operator_name :: "string \<Rightarrow> string \<Rightarrow> string" where
  "decide_operator_name physical logical =
     (let phys = lower physical; logical_lower = lower logical
      in if startswith phys ''hash match''
         then (if contains ''aggregate'' logical_lower then ''Hash Aggregate'' else ''Hash Match'')
         else if startswith phys ''stream aggregate'' then ''Stream Aggregate''
         else if startswith phys ''merge join'' then ''Merge Join''
         else if startswith phys ''nested loops'' then ''Nested Loops''
         else if startswith phys ''top'' then ''Top''
         else if startswith phys ''concat'' then ''Concatenation''
         else if startswith phys ''filter'' then ''Filter''
         else if startswith phys ''sort'' then ''Sort''
         else if startswith phys ''compute'' then ''Compute Scalar''
         else if scan_prefixed phys then physical
         else if physical \<noteq> [] then physical else logical)"

text \<open>\<^verbatim>\<open>create_empty_operator\<close> (lines 75-97); the name is a string here.\<close>

definition sqlserver_create_empty_operator :: "string \<Rightarrow> pyval \<Rightarrow> QueryOperator" where
  "sqlserver_create_empty_operator operator_name oid =
     (let name = lower operator_name
      in if scan_prefixed name then TableScan oid PNone PNone PNone
         else if startswith name ''sort'' then Sort oid PNone
         else if startswith name ''filter'' then Select oid
         else if startswith name ''compute'' then MapOperator oid
         else if startswith name ''hash match'' \<or> startswith name ''merge join''
                 \<or> startswith name ''nested loops'' \<or> contains ''join'' name
              then (if contains ''aggregate'' name then GroupBy oid PNone else Join oid PNone PNone)
         else if contains ''aggregate'' name then GroupBy oid PNone
         else if startswith name ''top'' then CustomOperator (PStr ''Top'') oid PNone
         else if startswith name ''concat'' \<or> startswith name ''concatenation''
              then SetOperation oid (PStr ''unionall'') True
         else CustomOperator (PStr operator_name) oid PNone)"

text \<open>\<^verbatim>\<open>_annotate_join_or_agg\<close> (lines 222-262), on the two names already lowered.\<close>

definition sqlserver_join_type :: "string \<Rightarrow> pyval" where
  "sqlserver_join_type logical_lower =
     (if contains ''left anti'' logical_lower then PStr ''leftanti''
      else if contains ''right anti'' logical_lower then PStr ''rightanti''
      else if contains ''left semi'' logical_lower then PStr ''leftsemi''
      else if contains ''right semi'' logical_lower then PStr ''rightsemi''
      else if contains ''inner'' logical_lower then PStr ''inner''
      else if contains ''left outer'' logical_lower then PStr ''leftouter''
      else if contains ''right outer'' logical_lower then PStr ''rightouter''
      else if contains ''full outer'' logical_lower then PStr ''fullouter''
      else if contains ''cross'' logical_lower then PStr ''cross''
      else if contains ''semi'' logical_lower then PStr ''semi''
      else if contains ''anti'' logical_lower then PStr ''anti''
      else PNone)"

definition annotate_join :: "string \<Rightarrow> string \<Rightarrow> (string \<times> pyval) list \<Rightarrow> (string \<times> pyval) list" where
  "annotate_join phys_lower logical_lower plan_info =
     (if contains ''join'' logical_lower \<or> contains ''join'' phys_lower
      then (let info = dict_set plan_info ''join_type'' (sqlserver_join_type logical_lower)
            in if contains ''hash'' phys_lower then dict_set info ''join_method'' (PStr ''hash'')
               else if contains ''merge'' phys_lower then dict_set info ''join_method'' (PStr ''merge'')
               else if contains ''loop'' phys_lower then dict_set info ''join_method'' (PStr ''nl'')
               else if contains ''adaptive'' phys_lower then dict_set info ''join_method'' (PStr ''adaptive'')
               else info)
      else plan_info)"

definition annotate_agg :: "string \<Rightarrow> string \<Rightarrow> (string \<times> pyval) list \<Rightarrow> (string \<times> pyval) list" where
  "annotate_agg phys_lower logical_lower plan_info =
     (if contains ''aggregate'' logical_lower \<or> contains ''aggregate'' phys_lower
      then (if contains ''hash'' phys_lower then dict_set plan_info ''agg_method'' (PStr ''hash'')
            else if contains ''stream'' phys_lower then dict_set plan_info ''agg_method'' (PStr ''stream'')
            else plan_info)
      else plan_info)"

definition annotate_join_or_agg :: "string \<Rightarrow> string \<Rightarrow> (string \<times> pyval) list \<Rightarrow> (string \<times> pyval) list" where
  "annotate_join_or_agg physical logical plan_info =
     annotate_agg (lower physical) (lower logical) (annotate_join (lower physical) (lower logical) plan_info)"

text \<open>
  The SQL Server branch of \<^verbatim>\<open>TableScan.fill\<close> (queryoperator.py, lines 106-120).
  \<^verbatim>\<open>".".join\<close> raises \<^verbatim>\<open>TypeError\<close> on an item that is not a string.
\<close>

fun join_parts :: "pyval list \<Rightarrow> error + string list" where
  "join_parts [] = Inr []"
| "join_parts (p # ps) =
     (case p of
        PStr s \<Rightarrow> (case join_parts ps of Inl e \<Rightarrow> Inl e | Inr ws \<Rightarrow> Inr (s # ws))
      | _ \<Rightarrow> Inl TypeError)"

definition table_name_sqlserver :: "pyval \<Rightarrow> (string \<times> pyval) list \<Rightarrow> error + pyval" where
  "table_name_sqlserver table_name plan =
     ebind (case dict_get plan ''object'' of
              PDict obj \<Rightarrow>
                ebind (join_parts (filter truthy
                         [or_chain obj [''Database'', ''database''], or_chain obj [''Schema'', ''schema''],
                          or_chain obj [''Table'', ''table'']]))
                  (\<lambda>ws. Inr (PStr (join_with CHR ''.'' ws)))
            | PStr obj \<Rightarrow> Inr (PStr obj)
            | _ \<Rightarrow> Inr table_name) (\<lambda>t1.
       let t2 = (if truthy t1 then t1 else dict_get plan ''Table'')
       in Inr (case t2 of
                 PStr s \<Rightarrow> (if s \<noteq> [] then PStr (last (split_on CHR ''.'' s)) else t2)
               | _ \<Rightarrow> t2))"

text \<open>
  \<^verbatim>\<open>operator.fill(plan_info, DBMSType.SQLServer)\<close>: the SQL Server branch of each
  class's \<^verbatim>\<open>fill\<close>; \<open>plan\<close> is the dict \<^verbatim>\<open>plan_info\<close>.
\<close>

fun fill_sqlserver :: "QueryOperator \<Rightarrow> (string \<times> pyval) list \<Rightarrow> error + QueryOperator" where
  "fill_sqlserver (TableScan i n s t) plan = ebind (table_name_sqlserver n plan) (\<lambda>n'. Inr (TableScan i n' s t))"
| "fill_sqlserver (Sort i l) plan = Inr (Sort i (coerce_limit (dict_get plan ''limit'')))"
| "fill_sqlserver (GroupBy i m) plan = Inr (GroupBy i (dict_get plan ''agg_method''))"
| "fill_sqlserver (Join i t m) plan =
     Inr (Join i (dict_get_default plan ''join_type'' t) (dict_get_default plan ''join_method'' m))"
| "fill_sqlserver (CustomOperator n i l) plan =
     (case n of
        PStr name \<Rightarrow>
          (if lower name = ''top'' then Inr (CustomOperator n i (coerce_limit (dict_get plan ''limit'')))
           else Inr (CustomOperator n i l))
      | _ \<Rightarrow> Inl AttributeError)"
| "fill_sqlserver op plan = Inr op"

subsection \<open>The XML shape\<close>

text \<open>\<^verbatim>\<open>_extract_operator_id\<close> (lines 184-193).\<close>

definition sqlserver_extract_operator_id :: "xml \<Rightarrow> nat \<Rightarrow> pyval \<times> nat" where
  "sqlserver_extract_operator_id relop_elem c =
     (case attrib_value relop_elem ''NodeId'' of
        PNone \<Rightarrow> (PInt (int c), Suc c)
      | node_id \<Rightarrow> ((case py_int node_id of Inr i \<Rightarrow> PInt i | Inl e \<Rightarrow> node_id), c))"

text \<open>\<^verbatim>\<open>_annotate_object\<close> (lines 264-271): the first of the five tags present decides.\<close>

definition object_tags :: "string list" where
  "object_tags = [''IndexScan'', ''IndexSeek'', ''TableScan'', ''ClusteredIndexScan'', ''ClusteredIndexSeek'']"

fun annotate_object_tags :: "xml \<Rightarrow> string list \<Rightarrow> (string \<times> pyval) list \<Rightarrow> (string \<times> pyval) list" where
  "annotate_object_tags relop_elem [] plan_info = plan_info"
| "annotate_object_tags relop_elem (t # ts) plan_info =
     (case find_child relop_elem t of
        Some child \<Rightarrow>
          (case find_child child ''Object'' of
             Some obj \<Rightarrow> dict_set plan_info ''object'' (PDict (map (\<lambda>kv. (fst kv, PStr (snd kv))) (attrib obj)))
           | None \<Rightarrow> plan_info)
      | None \<Rightarrow> annotate_object_tags relop_elem ts plan_info)"

text \<open>Lines 52-56: the limit of a TOP.\<close>

definition annotate_top :: "string \<Rightarrow> xml \<Rightarrow> (string \<times> pyval) list \<Rightarrow> (string \<times> pyval) list" where
  "annotate_top operator_name relop_elem plan_info =
     (if lower operator_name = ''top''
      then (case find_child relop_elem ''Top'' of
              Some top_elem \<Rightarrow>
                dict_set plan_info ''limit'' (int_option_value (sqlserver_safe_int (attrib_value top_elem ''RowCount'')))
            | None \<Rightarrow> plan_info)
      else plan_info)"

text \<open>Lines 33-62: the filled operator of an element.\<close>

definition relop_operator :: "xml \<Rightarrow> pyval \<Rightarrow> error + QueryOperator" where
  "relop_operator relop_elem oid =
     (let physical = (case map_of (attrib relop_elem) ''PhysicalOp'' of None \<Rightarrow> ''Unknown'' | Some v \<Rightarrow> v);
          logical = (case map_of (attrib relop_elem) ''LogicalOp'' of None \<Rightarrow> physical | Some v \<Rightarrow> v);
          operator_name = decide_operator_name physical logical;
          plan_info = annotate_object_tags relop_elem object_tags
                        (annotate_top operator_name relop_elem
                           (annotate_join_or_agg physical logical
                              [(''PhysicalOp'', PStr physical), (''LogicalOp'', PStr logical)]))
      in fill_sqlserver (sqlserver_create_empty_operator operator_name oid) plan_info)"

text \<open>\<^verbatim>\<open>build_relop\<close> (lines 32-73).\<close>

fun build_relop :: "config \<Rightarrow> nat \<Rightarrow> xml \<Rightarrow> nat \<Rightarrow> error + (PlanNode \<times> nat)" where
  "build_relop cfg 0 relop_elem c = Inl RecursionError"
| "build_relop cfg (Suc depth) relop_elem c =
     (case sqlserver_extract_operator_id relop_elem c of
        (oid, c1) \<Rightarrow>
          (case sqlserver_cardinalities (attrib_value relop_elem ''EstimateRows'')
                  (attrib_value relop_elem ''ActualRows'') of
             (estimated, exact) \<Rightarrow>
               ebind (relop_operator relop_elem oid) (\<lambda>op.
                 let sr = (if include_system_representation cfg then XmlRepresentation relop_elem
                           else NoRepresentation)
                 in if sqlserver_extract_children relop_elem = []
                    then Inr (LeafNode op estimated exact sr, c1)
                    else ebind (build_children (build_relop cfg depth) (sqlserver_extract_children relop_elem) c1)
                           (\<lambda>(cs, c2). Inr (InnerNode op estimated exact cs sr, c2)))))"

subsection \<open>The flat rows\<close>

definition columns :: "string list" where
  "columns = [''Rows'', ''Executes'', ''StmtText'', ''StmtId'', ''NodeId'', ''Parent'', ''PhysicalOp'',
     ''LogicalOp'', ''Argument'', ''DefinedValues'', ''EstimateRows'', ''EstimateIO'', ''EstimateCPU'',
     ''AvgRowSize'', ''TotalSubtreeCost'', ''OutputList'', ''Warnings'', ''Type'', ''Parallel'',
     ''EstimateExecutions'']"

text \<open>Lines 110-117: the rows kept, each as a dict over the twenty columns.\<close>

definition plan_rows :: "config \<Rightarrow> pyval list list \<Rightarrow> (string \<times> pyval) list list" where
  "plan_rows cfg rows =
     filter (\<lambda>entry. \<not> (truthy (dict_get entry ''Type'') \<and> upper (py_str cfg (dict_get entry ''Type'')) \<noteq> ''PLAN_ROW''))
       (map (\<lambda>row. zip columns row) (filter (\<lambda>row. \<not> length row < length columns) rows))"

text \<open>
  A dict with integer keys keeps the order in which its keys were first set:
  \<open>imap_set\<close> is \<^verbatim>\<open>m[k] = v\<close>.
\<close>

definition imap_set :: "(int \<times> 'v) list \<Rightarrow> int \<Rightarrow> 'v \<Rightarrow> (int \<times> 'v) list" where
  "imap_set m k v =
     (if map_of m k = None then m @ [(k, v)] else map (\<lambda>kv. if fst kv = k then (k, v) else kv) m)"

text \<open>Line 119: \<^verbatim>\<open>node_map\<close>; \<^verbatim>\<open>int(n["NodeId"])\<close> may raise.\<close>

fun make_node_map ::
  "(string \<times> pyval) list list \<Rightarrow> (int \<times> (string \<times> pyval) list) list \<Rightarrow> error + (int \<times> (string \<times> pyval) list) list" where
  "make_node_map [] m = Inr m"
| "make_node_map (n # ns) m =
     (if dict_get n ''NodeId'' = PNone then make_node_map ns m
      else (case py_int (dict_get n ''NodeId'') of
              Inl e \<Rightarrow> Inl e
            | Inr k \<Rightarrow> make_node_map ns (imap_set m k n)))"

text \<open>
  Lines 120-128: \<^verbatim>\<open>children_map\<close> and \<^verbatim>\<open>root_id\<close> after the loop over \<^verbatim>\<open>node_map.items()\<close>.
\<close>

definition append_child :: "(int \<times> int list) list \<Rightarrow> int \<Rightarrow> int \<Rightarrow> (int \<times> int list) list" where
  "append_child children_map parent nid =
     imap_set children_map parent ((case map_of children_map parent of None \<Rightarrow> [] | Some xs \<Rightarrow> xs) @ [nid])"

fun link_nodes ::
  "(int \<times> (string \<times> pyval) list) list \<Rightarrow> (int \<times> int list) list \<Rightarrow> int option
     \<Rightarrow> error + ((int \<times> int list) list \<times> int option)" where
  "link_nodes [] children_map root_id = Inr (children_map, root_id)"
| "link_nodes ((nid, n) # rest) children_map root_id =
     (if dict_get n ''Parent'' = PNone
      then link_nodes rest children_map (if root_id = None then Some nid else root_id)
      else (case py_int (dict_get n ''Parent'') of
              Inl e \<Rightarrow> Inl e
            | Inr parent \<Rightarrow>
                if parent = 0 then link_nodes rest children_map (if root_id = None then Some nid else root_id)
                else link_nodes rest (append_child children_map parent nid) root_id))"

text \<open>
  \<^verbatim>\<open>_extract_top_limit\<close> (lines 289-298): the leftmost match of \<^verbatim>\<open>TOP\s+(\d+)\<close>, letters
  in either case.
\<close>

definition match_top :: "string \<Rightarrow> int option" where
  "match_top s =
     (let rest = dropWhile is_space (drop 3 s)
      in if lower (take 3 s) = ''top'' \<and> takeWhile is_space (drop 3 s) \<noteq> [] \<and> takeWhile is_digit rest \<noteq> []
         then Some (int (nat_of_digits (map (\<lambda>c. the (digit_val c)) (takeWhile is_digit rest))))
         else None)"

fun search_top :: "string \<Rightarrow> int option" where
  "search_top [] = None"
| "search_top (c # cs) = (case match_top (c # cs) of Some i \<Rightarrow> Some i | None \<Rightarrow> search_top cs)"

definition extract_top_limit :: "pyval \<Rightarrow> int option" where
  "extract_top_limit argument = (case argument of PStr s \<Rightarrow> search_top s | _ \<Rightarrow> None)"

text \<open>
  \<^verbatim>\<open>_annotate_object_from_argument\<close> (lines 273-287). \<open>bracket_group s\<close> matches
  \<^verbatim>\<open>\[([^]]+)\]\<close> at the start of \<open>s\<close> and gives the group and what follows.
\<close>

definition bracket_group :: "string \<Rightarrow> (string \<times> string) option" where
  "bracket_group s =
     (case s of
        [] \<Rightarrow> None
      | c # cs \<Rightarrow>
          (if c = CHR ''['' \<and> takeWhile (\<lambda>x. x \<noteq> CHR '']'') cs \<noteq> [] \<and> dropWhile (\<lambda>x. x \<noteq> CHR '']'') cs \<noteq> []
           then Some (takeWhile (\<lambda>x. x \<noteq> CHR '']'') cs, tl (dropWhile (\<lambda>x. x \<noteq> CHR '']'') cs))
           else None))"

definition match_object3 :: "string \<Rightarrow> (string \<times> string \<times> string) option" where
  "match_object3 s =
     (if startswith s ''OBJECT:(''
      then (case bracket_group (drop 8 s) of
              None \<Rightarrow> None
            | Some (db, r1) \<Rightarrow>
                (if startswith r1 ''.''
                 then (case bracket_group (drop 1 r1) of
                         None \<Rightarrow> None
                       | Some (schema, r2) \<Rightarrow>
                           (if startswith r2 ''.''
                            then (case bracket_group (drop 1 r2) of
                                    None \<Rightarrow> None
                                  | Some (table, r3) \<Rightarrow> Some (db, schema, table))
                            else None))
                 else None))
      else None)"

fun search_object3 :: "string \<Rightarrow> (string \<times> string \<times> string) option" where
  "search_object3 [] = None"
| "search_object3 (c # cs) = (case match_object3 (c # cs) of Some g \<Rightarrow> Some g | None \<Rightarrow> search_object3 cs)"

definition match_object1 :: "string \<Rightarrow> string option" where
  "match_object1 s =
     (if startswith s ''OBJECT:'' \<and> takeWhile (\<lambda>x. x \<noteq> CHR '','') (drop 7 s) \<noteq> []
      then Some (takeWhile (\<lambda>x. x \<noteq> CHR '','') (drop 7 s)) else None)"

fun search_object1 :: "string \<Rightarrow> string option" where
  "search_object1 [] = None"
| "search_object1 (c # cs) = (case match_object1 (c # cs) of Some g \<Rightarrow> Some g | None \<Rightarrow> search_object1 cs)"

definition annotate_object_from_argument :: "(string \<times> pyval) list \<Rightarrow> (string \<times> pyval) list" where
  "annotate_object_from_argument plan_info =
     (case dict_get plan_info ''Argument'' of
        PStr argument \<Rightarrow>
          (case search_object3 argument of
             Some (db, schema, table) \<Rightarrow>
               dict_set plan_info ''object''
                 (PDict [(''Database'', PStr db), (''Schema'', PStr schema), (''Table'', PStr table)])
           | None \<Rightarrow>
               (case search_object1 argument of
                  Some g \<Rightarrow> dict_set plan_info ''object'' (PStr (strip g))
                | None \<Rightarrow> plan_info))
      | _ \<Rightarrow> plan_info)"

text \<open>
  Lines 133-149: the filled operator of a row. \<^verbatim>\<open>physical.lower()\<close> and
  \<^verbatim>\<open>logical.lower()\<close> raise \<^verbatim>\<open>AttributeError\<close> on a value that is not a string (the keys
  are always present in \<^verbatim>\<open>plan_info\<close>, so the defaults \<^verbatim>\<open>""\<close> never apply).
\<close>

definition row_operator :: "(string \<times> pyval) list \<Rightarrow> int \<Rightarrow> error + QueryOperator" where
  "row_operator info node_id =
     (let plan_info0 = [(''PhysicalOp'', dict_get info ''PhysicalOp''), (''LogicalOp'', dict_get info ''LogicalOp''),
                        (''Argument'', dict_get info ''Argument''), (''DefinedValues'', dict_get info ''DefinedValues''),
                        (''EstimateRows'', dict_get info ''EstimateRows''), (''Rows'', dict_get info ''Rows'')];
          plan_info1 = (case extract_top_limit (dict_get plan_info0 ''Argument'') of
                          Some top_limit \<Rightarrow> dict_set plan_info0 ''limit'' (PInt top_limit)
                        | None \<Rightarrow> plan_info0)
      in case (dict_get plan_info1 ''PhysicalOp'', dict_get plan_info1 ''LogicalOp'') of
           (PStr physical, PStr logical) \<Rightarrow>
             fill_sqlserver
               (sqlserver_create_empty_operator (decide_operator_name physical logical) (PInt node_id))
               (annotate_object_from_argument (annotate_join_or_agg physical logical plan_info1))
         | _ \<Rightarrow> Inl AttributeError)"

text \<open>The list comprehension of line 157, without a counter.\<close>

fun build_nodes :: "(int \<Rightarrow> error + PlanNode) \<Rightarrow> int list \<Rightarrow> error + PlanNode list" where
  "build_nodes f [] = Inr []"
| "build_nodes f (x # xs) =
     (case f x of
        Inl e \<Rightarrow> Inl e
      | Inr n \<Rightarrow> (case build_nodes f xs of Inl e \<Rightarrow> Inl e | Inr ns \<Rightarrow> Inr (n # ns)))"

text \<open>
  \<^verbatim>\<open>build_node\<close> (lines 132-168). Rows whose parents form a cycle make it call itself
  without end; \<open>depth\<close> bounds the nesting as the interpreter does.
\<close>

fun build_node ::
  "(int \<times> (string \<times> pyval) list) list \<Rightarrow> (int \<times> int list) list \<Rightarrow> nat \<Rightarrow> int \<Rightarrow> error + PlanNode" where
  "build_node node_map children_map 0 node_id = Inl RecursionError"
| "build_node node_map children_map (Suc depth) node_id =
     (case map_of node_map node_id of
        None \<Rightarrow> Inl KeyError
      | Some info \<Rightarrow>
          ebind (row_operator info node_id) (\<lambda>op.
            case sqlserver_cardinalities (dict_get info ''EstimateRows'') (dict_get info ''Rows'') of
              (estimated, exact) \<Rightarrow>
                ebind (build_nodes (build_node node_map children_map depth)
                         (case map_of children_map node_id of None \<Rightarrow> [] | Some ids \<Rightarrow> ids)) (\<lambda>children_nodes.
                  if startswith (lower (case dict_get info ''PhysicalOp'' of PStr p \<Rightarrow> p | _ \<Rightarrow> [])) ''parallelism''
                     \<and> length children_nodes = 1
                  then Inr (hd children_nodes)
                  else if children_nodes = [] then Inr (LeafNode op estimated exact (RowRepresentation info))
                  else Inr (InnerNode op estimated exact children_nodes (RowRepresentation info)))))"

text \<open>
  \<^verbatim>\<open>_build_from_rows\<close> (lines 106-172). The smallest key of a non-empty
  \<^verbatim>\<open>node_map\<close> is the root when no row has a null or zero parent.
\<close>

definition choose_root :: "(int \<times> (string \<times> pyval) list) list \<Rightarrow> int option \<Rightarrow> int option" where
  "choose_root node_map root_id =
     (if root_id = None \<and> node_map \<noteq> [] then Some (Min (set (map fst node_map))) else root_id)"

definition build_from_rows :: "config \<Rightarrow> nat \<Rightarrow> pyval list list \<Rightarrow> error + PlanNode" where
  "build_from_rows cfg depth rows =
     ebind (make_node_map (plan_rows cfg rows) []) (\<lambda>node_map.
     ebind (link_nodes node_map (map (\<lambda>kv. (fst kv, [])) node_map) None) (\<lambda>(children_map, root_id).
       case choose_root node_map root_id of
         None \<Rightarrow> Inl NoRootIdentified
       | Some r \<Rightarrow> build_node node_map children_map depth r))"

text \<open>
  \<^verbatim>\<open>parse_json_plan\<close> (lines 17-30). A text payload is given as what
  \<^verbatim>\<open>ET.fromstring\<close> makes of it: the root element, or \<open>None\<close> when it raises
  \<^verbatim>\<open>ParseError\<close>. Any other payload is a sequence of rows.
\<close>

datatype payload = XmlText "xml option" | Rows "pyval list list"

definition sqlserver_parse_json_plan ::
  "config \<Rightarrow> nat \<Rightarrow> string \<Rightarrow> payload \<Rightarrow> nat \<Rightarrow> error + (QueryPlan \<times> nat)" where
  "sqlserver_parse_json_plan cfg depth query plan_payload c =
     ebind (case plan_payload of
              XmlText None \<Rightarrow> Inl ParseError
            | XmlText (Some root) \<Rightarrow>
                (case find_relop root of
                   None \<Rightarrow> Inl NoRelOpFound
                 | Some relop \<Rightarrow> build_relop cfg depth relop c)
            | Rows rows \<Rightarrow> ebind (build_from_rows cfg depth rows) (\<lambda>p. Inr (p, c))) (\<lambda>(p, c').
       Inr (\<lparr>qp_text = query, qp_plan = result_root p\<rparr>, c'))"


text \<open>
  The parser as its constructor makes it by default
  (\<^verbatim>\<open>include_system_representation=True\<close>), for the closed examples below; none of
  them converts a float, a list or a dict to text, so the text chosen here is never read.
\<close>

definition default_config :: config where
  "default_config = \<lparr>include_system_representation = True, repr_text = (\<lambda>v. [])\<rparr>"

text \<open>The payload of the spec's scenario A.\<close>

definition scenario_a :: pyval where
  "scenario_a =
     PDict [(''Plan'', PDict [(''Node Type'', PStr ''Expression''),
       (''Plans'', PList [PDict [(''Node Type'', PStr ''Aggregating''),
          (''Statistics'', PDict [(''rows'', PInt 10)]), (''Plans'', PList [])]])])]"

text \<open>The document of the spec's scenario B, and the plans the two scenarios give.\<close>

definition scenario_b :: xml where
  "scenario_b =
     Element ''ShowPlanXML'' []
       [Element ''RelOp'' [(''PhysicalOp'', ''Hash Match''), (''LogicalOp'', ''Inner Join'')]
          [Element ''RelOp'' [(''PhysicalOp'', ''Table Scan'')] []]]"

definition scenario_a_leaf :: PlanNode where
  "scenario_a_leaf =
     LeafNode (GroupBy (PInt 1) PNone) None (Some 10)
       (JsonRepresentation (PDict [(''Node Type'', PStr ''Aggregating''),
          (''Statistics'', PDict [(''rows'', PInt 10)])]))"

definition scenario_b_join :: PlanNode where
  "scenario_b_join =
     InnerNode (Join (PInt 0) (PStr ''inner'') (PStr ''hash'')) None None
       [LeafNode (TableScan (PInt 1) PNone PNone PNone) None None
          (XmlRepresentation (Element ''RelOp'' [(''PhysicalOp'', ''Table Scan'')] []))]
       (XmlRepresentation
          (Element ''RelOp'' [(''PhysicalOp'', ''Hash Match''), (''LogicalOp'', ''Inner Join'')]
             [Element ''RelOp'' [(''PhysicalOp'', ''Table Scan'')] []]))"

text \<open>
  The parser made with \<^verbatim>\<open>include_system_representation=False\<close>, and raw ClickHouse
  nodes with a Limit above a Sort.
\<close>

definition bare_config :: config where
  "bare_config = \<lparr>include_system_representation = False, repr_text = (\<lambda>v. [])\<rparr>"

definition limit_over_sort :: "(string \<times> pyval) list" where
  "limit_over_sort =
     [(''Node Type'', PStr ''Limit''), (''Limit'', PInt 3),
      (''Plans'', PList [PDict [(''Node Type'', PStr ''Sorting'')]])]"

definition nested_limits :: pyval where
  "nested_limits =
     PDict [(''Node Type'', PStr ''Limit''),
       (''Plans'', PList [PDict [(''Node Type'', PStr ''Sorting''), (''Limit'', PInt 5),
          (''Plans'', PList [PDict [(''Node Type'', PStr ''Limit''), (''Limit'', PInt 2),
             (''Plans'', PList [PDict [(''Node Type'', PStr ''ReadFromStorage'')]])]])]])]"

text \<open>The exceptions of the built-ins and of the interpreter: all but the parser's own two.\<close>

definition builtin_error :: "error \<Rightarrow> bool" where
  "builtin_error e = (e \<noteq> NoRelOpFound \<and> e \<noteq> NoRootIdentified)"

text \<open>A row of kind \<^verbatim>\<open>PLAN_ROW\<close> with \<^verbatim>\<open>NodeId\<close> 1 and \<^verbatim>\<open>Parent\<close> 0 whose other columns are null.\<close>

definition null_operator_row :: "pyval list" where
  "null_operator_row =
     [PNone, PNone, PNone, PNone, PInt 1, PInt 0, PNone, PNone, PNone, PNone,
      PNone, PNone, PNone, PNone, PNone, PNone, PNone, PStr ''PLAN_ROW'', PNone, PNone]"



text \<open>
  Lines 15-17 of clickhouseparser.py: the raw node \<^verbatim>\<open>parse_json_plan\<close> starts from, for the
  payload \<^verbatim>\<open>json_plan\<close> with entries \<open>d\<close>.
\<close>

definition plan_root :: "(string \<times> pyval) list \<Rightarrow> pyval" where
  "plan_root d =
     (let found = py_or (py_or (dict_get d ''Plan'') (dict_get d ''plan'')) (PDict d)
      in case found of
           PList xs \<Rightarrow> (case xs of [] \<Rightarrow> PDict [] | x # _ \<Rightarrow> x)
         | _ \<Rightarrow> found)"















section \<open>Properties\<close>

lemmas str_simps =
  lower_def lower_char_def upper_def upper_char_def upper_letters_def lower_letters_def

lemmas ch_simps =
  parse_json_plan_def extract_children_def extract_operator_name_def extract_operator_id_def
  extract_cardinalities_def safe_int_def coerce_int_def system_representation_def create_empty_operator_def
  finish_node_def child_keys_def name_keys_def id_keys_def estimated_keys_def exact_keys_def
  limit_keys_def dict_get_def dict_get_default_def has_key_def py_or_def py_str_def ebind_def
  dict_pop_def result_root_def coerce_limit_def Let_def

subsection \<open>Scenario A\<close>

text \<open>
  C2, as the code has it: on the payload of scenario A the ClickHouse parser returns
  the Result root over one GroupBy leaf whose exact cardinality is 10 and whose
  estimated cardinality is absent (\<open>None\<close>); the root carries the same pair. The
  Expression wrapper took id \<open>c\<close>, the leaf has id \<open>c + 1\<close>.
\<close>

theorem scenario_a_result:
  "parse_json_plan cfg (Suc (Suc d)) q scenario_a c =
     Inr (\<lparr>qp_text = q,
           qp_plan = InnerNode (Result (PInt (- 1))) None (Some 10)
             [LeafNode (GroupBy (PInt (int c + 1)) PNone) None (Some 10)
                (if include_system_representation cfg
                 then JsonRepresentation (PDict [(''Node Type'', PStr ''Aggregating''),
                        (''Statistics'', PDict [(''rows'', PInt 10)])])
                 else NoRepresentation)]
             (TextRepresentation ''// added by benchy'')\<rparr>, Suc (Suc c))"
  by (simp add: scenario_a_def ch_simps str_simps)

text \<open>
  C2 as the spec states it fails: the estimated cardinality of the GroupBy leaf is
  \<open>None\<close>, not 10 (only the exact cardinality falls back on the other one).
\<close>

theorem scenario_a_estimated_is_none:
  "(case parse_json_plan default_config (Suc (Suc 0)) [] scenario_a 0 of
      Inr (qp, c) \<Rightarrow> map estimated_cardinality (children (qp_plan qp))
    | Inl e \<Rightarrow> []) = [None]
   \<and> (case parse_json_plan default_config (Suc (Suc 0)) [] scenario_a 0 of
      Inr (qp, c) \<Rightarrow> map estimated_cardinality (children (qp_plan qp))
    | Inl e \<Rightarrow> []) \<noteq> [Some 10]"
  by (simp add: scenario_a_def default_config_def ch_simps str_simps)

subsection \<open>An Expression wrapper without children\<close>

text \<open>
  C3 fails on the code: an Expression node with no children is renamed \<^verbatim>\<open>"Map"\<close>
  (line 36), and \<^verbatim>\<open>create_empty_operator\<close> has no rule for that name, so the node is a
  \<^verbatim>\<open>CustomOperator\<close> named \<^verbatim>\<open>"Map"\<close> and not an operator of kind \<^verbatim>\<open>OperatorType.Map\<close>.
\<close>

theorem expression_without_children:
  "build_initial_plan cfg (Suc d) (PDict [(''Node Type'', PStr ''Expression'')]) c =
     Inr (LeafNode (CustomOperator (PStr ''Map'') (PInt (int c)) PNone) None None
            (if include_system_representation cfg
             then JsonRepresentation (PDict [(''Node Type'', PStr ''Expression'')]) else NoRepresentation),
          Suc c)
   \<and> operator_type (CustomOperator (PStr ''Map'') (PInt (int c)) PNone) \<noteq> MapType"
  by (simp add: ch_simps str_simps)

subsection \<open>Empty payloads\<close>










lemmas sql_simps =
  sqlserver_parse_json_plan_def find_relop_def relop_operator_def sqlserver_extract_operator_id_def
  sqlserver_cardinalities_def sqlserver_safe_int_def attrib_value_def findall_def find_child_def
  sqlserver_extract_children_def decide_operator_name_def sqlserver_create_empty_operator_def
  scan_prefixed_def annotate_join_or_agg_def annotate_join_def annotate_agg_def sqlserver_join_type_def
  annotate_top_def object_tags_def table_name_sqlserver_def dict_set_def

subsection \<open>The synthetic root\<close>

text \<open>
  C1: whenever \<^verbatim>\<open>parse_json_plan\<close> of the ClickHouse parser or of the SQL Server parser
  returns a plan, its root is an inner node whose operator is \<^verbatim>\<open>Result\<close> with id \<open>-1\<close>,
  and it has exactly one child: the node the engine-specific builder returned.
\<close>

theorem parsed_root_is_result:
  "(parse_json_plan cfg depth q json_plan c = Inr (qp, c') \<longrightarrow>
      (\<exists>plan_root p. build_initial_plan cfg depth plan_root c = Inr (p, c')
         \<and> \<not> is_leaf_node (qp_plan qp) \<and> operator (qp_plan qp) = Result (PInt (- 1))
         \<and> operator_type (operator (qp_plan qp)) = ResultType
         \<and> operator_id (operator (qp_plan qp)) = PInt (- 1)
         \<and> children (qp_plan qp) = [p] \<and> length (children (qp_plan qp)) = 1))
   \<and> (sqlserver_parse_json_plan cfg depth q plan_payload c = Inr (qp', c'') \<longrightarrow>
      (\<exists>p. ((\<exists>relop. build_relop cfg depth relop c = Inr (p, c''))
               \<or> (\<exists>rows. build_from_rows cfg depth rows = Inr p))
         \<and> \<not> is_leaf_node (qp_plan qp')
         \<and> operator_type (operator (qp_plan qp')) = ResultType
         \<and> operator_id (operator (qp_plan qp')) = PInt (- 1)
         \<and> children (qp_plan qp') = [p] \<and> length (children (qp_plan qp')) = 1))"
proof (intro conjI impI)
  assume a: "parse_json_plan cfg depth q json_plan c = Inr (qp, c')"
  then obtain d where d: "json_plan = PDict d"
    by (cases json_plan) (simp_all add: parse_json_plan_def)
  from a d obtain plan_root p where
    b: "build_initial_plan cfg depth plan_root c = Inr (p, c')" and r: "qp_plan qp = result_root p"
    by (auto simp: parse_json_plan_def ebind_def Let_def split: sum.splits prod.splits)
  show "\<exists>plan_root p. build_initial_plan cfg depth plan_root c = Inr (p, c')
         \<and> \<not> is_leaf_node (qp_plan qp) \<and> operator (qp_plan qp) = Result (PInt (- 1))
         \<and> operator_type (operator (qp_plan qp)) = ResultType
         \<and> operator_id (operator (qp_plan qp)) = PInt (- 1)
         \<and> children (qp_plan qp) = [p] \<and> length (children (qp_plan qp)) = 1"
    using b r by (auto simp: result_root_def)
next
  assume a: "sqlserver_parse_json_plan cfg depth q plan_payload c = Inr (qp', c'')"
  then have "\<exists>p. ((\<exists>relop. build_relop cfg depth relop c = Inr (p, c''))
                \<or> (\<exists>rows. build_from_rows cfg depth rows = Inr p)) \<and> qp_plan qp' = result_root p"
    by (auto simp: sqlserver_parse_json_plan_def ebind_def
             split: sum.splits prod.splits payload.splits option.splits)
  then obtain p where
    b: "(\<exists>relop. build_relop cfg depth relop c = Inr (p, c'')) \<or> (\<exists>rows. build_from_rows cfg depth rows = Inr p)"
    and r: "qp_plan qp' = result_root p"
    by blast
  show "\<exists>p. ((\<exists>relop. build_relop cfg depth relop c = Inr (p, c''))
               \<or> (\<exists>rows. build_from_rows cfg depth rows = Inr p))
         \<and> \<not> is_leaf_node (qp_plan qp')
         \<and> operator_type (operator (qp_plan qp')) = ResultType
         \<and> operator_id (operator (qp_plan qp')) = PInt (- 1)
         \<and> children (qp_plan qp') = [p] \<and> length (children (qp_plan qp')) = 1"
    using b r by (auto simp: result_root_def)
qed

text \<open>The scenarios A and B parse, and their roots are as the theorem says.\<close>

theorem parsed_root_is_result_witness:
  "parse_json_plan default_config (Suc (Suc 0)) [] scenario_a 0
     = Inr (\<lparr>qp_text = [], qp_plan = result_root scenario_a_leaf\<rparr>, Suc (Suc 0))
   \<and> sqlserver_parse_json_plan default_config (Suc (Suc 0)) [] (XmlText (Some scenario_b)) 0
     = Inr (\<lparr>qp_text = [], qp_plan = result_root scenario_b_join\<rparr>, Suc (Suc 0))
   \<and> operator_type (operator (result_root scenario_a_leaf)) = ResultType
   \<and> operator_id (operator (result_root scenario_a_leaf)) = PInt (- 1)
   \<and> length (children (result_root scenario_a_leaf)) = 1
   \<and> operator_type (operator (result_root scenario_b_join)) = ResultType
   \<and> operator_id (operator (result_root scenario_b_join)) = PInt (- 1)
   \<and> length (children (result_root scenario_b_join)) = 1"
proof -
  have a: "parse_json_plan default_config (Suc (Suc 0)) [] scenario_a 0
     = Inr (\<lparr>qp_text = [], qp_plan = result_root scenario_a_leaf\<rparr>, Suc (Suc 0))"
    by (simp add: scenario_a_def scenario_a_leaf_def default_config_def ch_simps str_simps)
  have b: "sqlserver_parse_json_plan default_config (Suc (Suc 0)) [] (XmlText (Some scenario_b)) 0
     = Inr (\<lparr>qp_text = [], qp_plan = result_root scenario_b_join\<rparr>, Suc (Suc 0))"
    by (simp add: scenario_b_def scenario_b_join_def default_config_def sql_simps str_simps
          ebind_def Let_def has_key_def dict_get_def dict_get_default_def)
  from a b parsed_root_is_result [of default_config "Suc (Suc 0)" "[]" scenario_a 0
      "\<lparr>qp_text = [], qp_plan = result_root scenario_a_leaf\<rparr>" "Suc (Suc 0)"
      "XmlText (Some scenario_b)" "\<lparr>qp_text = [], qp_plan = result_root scenario_b_join\<rparr>" "Suc (Suc 0)"]
  show ?thesis
    by (auto simp del: build_initial_plan.simps build_relop.simps)
qed

subsection \<open>Aggregates and joins in the SQL Server taxonomy\<close>

text \<open>
  C6, as the code has it: for a name that contains \<^verbatim>\<open>aggregate\<close> (in any case),
  \<^verbatim>\<open>create_empty_operator\<close> of the SQL Server parser never returns a Join; it returns a
  GroupBy unless one of the four earlier rules applies (a name that starts with a
  scan prefix, or with \<^verbatim>\<open>sort\<close>, \<^verbatim>\<open>filter\<close> or \<^verbatim>\<open>compute\<close>). A physical operator
  that starts with \<^verbatim>\<open>hash match\<close> under a logical operator that contains
  \<^verbatim>\<open>aggregate\<close> is named \<^verbatim>\<open>Hash Aggregate\<close> and becomes a GroupBy.
\<close>

theorem aggregate_is_never_join:
  "(contains ''aggregate'' (lower name) \<longrightarrow>
      operator_type (sqlserver_create_empty_operator name oid) \<noteq> JoinType
      \<and> (\<not> scan_prefixed (lower name) \<and> \<not> startswith (lower name) ''sort''
           \<and> \<not> startswith (lower name) ''filter'' \<and> \<not> startswith (lower name) ''compute''
         \<longrightarrow> sqlserver_create_empty_operator name oid = GroupBy oid PNone))
   \<and> (startswith (lower physical) ''hash match'' \<and> contains ''aggregate'' (lower logical) \<longrightarrow>
        decide_operator_name physical logical = ''Hash Aggregate''
        \<and> sqlserver_create_empty_operator (decide_operator_name physical logical) oid = GroupBy oid PNone)"
  by (simp add: sqlserver_create_empty_operator_def decide_operator_name_def scan_prefixed_def Let_def str_simps)

theorem aggregate_is_never_join_witness:
  "contains ''aggregate'' (lower ''Hash Match Aggregate'')
   \<and> sqlserver_create_empty_operator ''Hash Match Aggregate'' (PInt 3) = GroupBy (PInt 3) PNone
   \<and> operator_type (sqlserver_create_empty_operator ''Hash Match Aggregate'' (PInt 3)) \<noteq> JoinType
   \<and> startswith (lower ''Hash Match'') ''hash match'' \<and> contains ''aggregate'' (lower ''Partial Aggregate'')
   \<and> sqlserver_create_empty_operator (decide_operator_name ''Hash Match'' ''Partial Aggregate'') (PInt 3)
        = GroupBy (PInt 3) PNone"
  using aggregate_is_never_join [of "''Hash Match Aggregate''" "PInt 3" "''Hash Match''" "''Partial Aggregate''"]
  by (simp add: sqlserver_create_empty_operator_def decide_operator_name_def scan_prefixed_def Let_def str_simps)

text \<open>
  C6 as the spec states it fails: the physical operator
  \<^verbatim>\<open>Table Scan Hash Match Aggregate\<close> is kept as the name, the name contains both
  \<^verbatim>\<open>hash match\<close> and \<^verbatim>\<open>aggregate\<close>, and the first rule makes it a TableScan.
\<close>

theorem scan_named_aggregate_is_table_scan:
  "decide_operator_name ''Table Scan Hash Match Aggregate'' ''Aggregate'' = ''Table Scan Hash Match Aggregate''
   \<and> contains ''hash match'' (lower ''Table Scan Hash Match Aggregate'')
   \<and> contains ''aggregate'' (lower ''Table Scan Hash Match Aggregate'')
   \<and> sqlserver_create_empty_operator (decide_operator_name ''Table Scan Hash Match Aggregate'' ''Aggregate'') (PInt 1)
        = TableScan (PInt 1) PNone PNone PNone
   \<and> sqlserver_create_empty_operator (decide_operator_name ''Table Scan Hash Match Aggregate'' ''Aggregate'') (PInt 1)
        \<noteq> GroupBy (PInt 1) PNone"
  by (simp add: sqlserver_create_empty_operator_def decide_operator_name_def scan_prefixed_def Let_def str_simps)

subsection \<open>Numbers in the closed examples\<close>

lemmas num_simps =
  float_of_str_def split_sign_def strip_def is_space_def parse_mantissa_def parse_exponent_def
  opt_digit_part_def digit_val_def decimal_to_double_def nat_of_digits_def round_to_double_def
  floor_log2_def scale_le_def round_half_even_def bit_length.simps int_of_str_def float_of_int_def

subsection \<open>A Limit above a Sort\<close>

lemma startswith_expression_not_limit:
  "startswith n ''expression'' \<Longrightarrow> \<not> startswith n ''limit''"
  by (cases n) auto

lemma limit_operator_not_wrapper:
  assumes "create_empty_operator cfg name oid = CustomOperator (PStr ''Limit'') oid' l"
  shows "\<not> startswith (lower (py_str cfg name)) ''expression''"
proof
  assume e: "startswith (lower (py_str cfg name)) ''expression''"
  then have "\<not> startswith (lower (py_str cfg name)) ''limit''"
    by (rule startswith_expression_not_limit)
  with e assms show False
    by (simp add: create_empty_operator_def Let_def split: if_splits)
qed

text \<open>
  C5, as the code has it: when a raw dict resolves to the \<^verbatim>\<open>CustomOperator\<close> named
  \<^verbatim>\<open>"Limit"\<close>, has exactly one child, and that child builds to a node whose operator
  is a Sort, the node returned is that Sort node (same children, same cardinalities);
  its limit is the Limit's limit when that is not \<open>None\<close>, and the Sort's own limit
  otherwise. The merged Limit is not a node of the result.
\<close>

theorem limit_merges_into_sort:
  assumes "extract_operator_id (PDict d) c = (oid, c1)"
    and "create_empty_operator cfg (extract_operator_name cfg (PDict d)) oid
           = CustomOperator (PStr ''Limit'') oid PNone"
    and "extract_cardinalities (PDict d) = Inr (est, ex)"
    and "extract_children (PDict d) = PList [child]"
    and "build_initial_plan cfg depth child c1 = Inr (sort_node, c2)"
    and "operator sort_node = Sort sid own_limit"
  shows "\<exists>n. build_initial_plan cfg (Suc depth) (PDict d) c = Inr (n, c2)
           \<and> operator n = Sort sid (if coerce_limit (or_chain d limit_keys) = PNone then own_limit
                                     else coerce_limit (or_chain d limit_keys))
           \<and> children n = children sort_node
           \<and> is_leaf_node n = is_leaf_node sort_node
           \<and> estimated_cardinality n = estimated_cardinality sort_node
           \<and> exact_cardinality n = exact_cardinality sort_node"
proof -
  have nw: "\<not> startswith (lower (py_str cfg (extract_operator_name cfg (PDict d)))) ''expression''"
    using assms(2) by (rule limit_operator_not_wrapper)
  have b: "build_initial_plan cfg (Suc depth) (PDict d) c =
        Inr (copy_limit (CustomOperator (PStr ''Limit'') oid (coerce_limit (or_chain d limit_keys))) sort_node, c2)"
    using assms nw
    by (simp add: Let_def ebind_def system_representation_def del: build_initial_plan.simps(1))
  show ?thesis
    using assms(6) by (cases sort_node) (simp_all add: b del: build_initial_plan.simps)
qed

theorem limit_merges_into_sort_witness:
  "extract_operator_id (PDict limit_over_sort) 0 = (PInt 0, Suc 0)
   \<and> create_empty_operator bare_config (extract_operator_name bare_config (PDict limit_over_sort)) (PInt 0)
       = CustomOperator (PStr ''Limit'') (PInt 0) PNone
   \<and> extract_cardinalities (PDict limit_over_sort) = Inr (None, None)
   \<and> extract_children (PDict limit_over_sort) = PList [PDict [(''Node Type'', PStr ''Sorting'')]]
   \<and> build_initial_plan bare_config (Suc 0) (PDict [(''Node Type'', PStr ''Sorting'')]) (Suc 0)
       = Inr (LeafNode (Sort (PInt 1) PNone) None None NoRepresentation, Suc (Suc 0))
   \<and> (\<exists>n. build_initial_plan bare_config (Suc (Suc 0)) (PDict limit_over_sort) 0 = Inr (n, Suc (Suc 0))
          \<and> operator n = Sort (PInt 1) (PInt 3) \<and> is_leaf_node n)"
proof -
  have h1: "extract_operator_id (PDict limit_over_sort) 0 = (PInt 0, Suc 0)"
    by (simp add: limit_over_sort_def ch_simps)
  have h2: "create_empty_operator bare_config (extract_operator_name bare_config (PDict limit_over_sort)) (PInt 0)
       = CustomOperator (PStr ''Limit'') (PInt 0) PNone"
    by (simp add: limit_over_sort_def bare_config_def ch_simps str_simps)
  have h3: "extract_cardinalities (PDict limit_over_sort) = Inr (None, None)"
    by (simp add: limit_over_sort_def ch_simps)
  have h4: "extract_children (PDict limit_over_sort) = PList [PDict [(''Node Type'', PStr ''Sorting'')]]"
    by (simp add: limit_over_sort_def ch_simps)
  have h5: "build_initial_plan bare_config (Suc 0) (PDict [(''Node Type'', PStr ''Sorting'')]) (Suc 0)
       = Inr (LeafNode (Sort (PInt 1) PNone) None None NoRepresentation, Suc (Suc 0))"
    by (simp add: bare_config_def ch_simps str_simps)
  have h6: "operator (LeafNode (Sort (PInt 1) PNone) None None NoRepresentation) = Sort (PInt 1) PNone"
    by simp
  have l: "coerce_limit (or_chain limit_over_sort limit_keys) = PInt 3"
    by (simp add: limit_over_sort_def ch_simps)
  from limit_merges_into_sort [OF h1 h2 h3 h4 h5 h6] h1 h2 h3 h4 h5 l show ?thesis
    by (auto simp del: build_initial_plan.simps)
qed

text \<open>
  C5 as the spec states it fails. Here the outer Limit has no limit of its own
  (\<open>None\<close>) and its child is a Sort with limit 5 above another Limit: the Sort
  returned keeps its own limit 5, and a node named \<^verbatim>\<open>"Limit"\<close> is in the output tree.
\<close>

theorem limit_remains_below_sort:
  "fill_clickhouse bare_config (CustomOperator (PStr ''Limit'') (PInt 0) PNone) nested_limits
     = Inr (CustomOperator (PStr ''Limit'') (PInt 0) PNone)
   \<and> build_initial_plan bare_config (Suc (Suc (Suc (Suc 0)))) nested_limits 0 =
     Inr (InnerNode (Sort (PInt 1) (PInt 5)) None None
            [InnerNode (CustomOperator (PStr ''Limit'') (PInt 2) (PInt 2)) None None
               [LeafNode (TableScan (PInt 4) PNone PNone PNone) None None NoRepresentation]
               NoRepresentation]
            NoRepresentation, 5)"
  by (simp add: nested_limits_def bare_config_def ch_simps str_simps num_simps
        table_name_clickhouse_def trim_table_name_def)

subsection \<open>When no root is found\<close>

lemma int_of_float_error: "int_of_float f = Inl e \<Longrightarrow> builtin_error e"
  by (cases f) (auto simp: builtin_error_def)

lemma py_int_error: "py_int v = Inl e \<Longrightarrow> builtin_error e"
  by (cases v) (auto simp: builtin_error_def dest: int_of_float_error split: option.splits)

lemma join_parts_error: "join_parts ps = Inl e \<Longrightarrow> builtin_error e"
  by (induction ps arbitrary: e) (auto simp: builtin_error_def split: pyval.splits sum.splits)

lemma table_name_sqlserver_error: "table_name_sqlserver n plan = Inl e \<Longrightarrow> builtin_error e"
  by (auto simp: table_name_sqlserver_def ebind_def Let_def dest: join_parts_error
           split: pyval.splits sum.splits)

lemma fill_sqlserver_error: "fill_sqlserver op plan = Inl e \<Longrightarrow> builtin_error e"
  by (cases op) (auto simp: ebind_def builtin_error_def dest: table_name_sqlserver_error
                      split: sum.splits pyval.splits if_splits)

lemma relop_operator_error: "relop_operator relop oid = Inl e \<Longrightarrow> builtin_error e"
  by (simp add: relop_operator_def Let_def fill_sqlserver_error)

lemma row_operator_error: "row_operator info node_id = Inl e \<Longrightarrow> builtin_error e"
  by (auto simp: row_operator_def Let_def builtin_error_def dest: fill_sqlserver_error
           split: pyval.splits option.splits)

lemma build_children_error:
  assumes "\<And>x c e. f x c = Inl e \<Longrightarrow> P e"
  shows "build_children f xs c = Inl e \<Longrightarrow> P e"
  using assms by (induction xs arbitrary: c) (auto split: sum.splits prod.splits)

lemma build_nodes_error:
  assumes "\<And>x e. f x = Inl e \<Longrightarrow> P e"
  shows "build_nodes f xs = Inl e \<Longrightarrow> P e"
  using assms by (induction xs) (auto split: sum.splits)

lemma build_relop_error: "build_relop cfg depth relop c = Inl e \<Longrightarrow> builtin_error e"
proof (induction depth arbitrary: relop c e)
  case 0
  then show ?case by (simp add: builtin_error_def)
next
  case (Suc depth)
  have ch: "\<And>xs c e. build_children (build_relop cfg depth) xs c = Inl e \<Longrightarrow> builtin_error e"
    using Suc.IH by (rule build_children_error)
  from Suc.prems show ?case
    by (auto simp: ebind_def Let_def dest: relop_operator_error ch
             split: prod.splits sum.splits if_splits)
qed

lemma build_node_error: "build_node nm cm depth nid = Inl e \<Longrightarrow> builtin_error e"
proof (induction depth arbitrary: nid e)
  case 0
  then show ?case by (simp add: builtin_error_def)
next
  case (Suc depth)
  have ch: "\<And>xs e. build_nodes (build_node nm cm depth) xs = Inl e \<Longrightarrow> builtin_error e"
    using Suc.IH by (rule build_nodes_error)
  from Suc.prems show ?case
    by (auto simp: ebind_def Let_def builtin_error_def dest: row_operator_error ch
             split: prod.splits sum.splits if_splits option.splits)
qed

lemma make_node_map_error: "make_node_map ns m = Inl e \<Longrightarrow> builtin_error e"
  by (induction ns arbitrary: m) (auto dest: py_int_error split: if_splits sum.splits)

lemma link_nodes_error: "link_nodes nm cm r = Inl e \<Longrightarrow> builtin_error e"
  by (induction nm cm r rule: link_nodes.induct) (auto dest: py_int_error split: if_splits sum.splits)

text \<open>
  C9, as the code has it: the SQL Server parser raises its own error for a missing
  root exactly when no root is identified. In the XML shape that is when no \<^verbatim>\<open>RelOp\<close>
  element lies below the root element of the document; in the flat rows, when
  \<^verbatim>\<open>node_map\<close> is empty (no kept row has a \<^verbatim>\<open>NodeId\<close>). Any other failure of a parse is
  another exception.
\<close>

theorem no_root_errors:
  "(sqlserver_parse_json_plan cfg depth q (XmlText (Some root)) c = Inl NoRelOpFound) = (find_relop root = None)
   \<and> (sqlserver_parse_json_plan cfg depth q (Rows rows) c = Inl NoRootIdentified)
        = (make_node_map (plan_rows cfg rows) [] = Inr [])"
proof (intro conjI)
  show "(sqlserver_parse_json_plan cfg depth q (XmlText (Some root)) c = Inl NoRelOpFound) = (find_relop root = None)"
    using build_relop_error [of cfg depth _ c NoRelOpFound]
    by (auto simp: sqlserver_parse_json_plan_def ebind_def builtin_error_def
             split: option.splits sum.splits prod.splits)
next
  show "(sqlserver_parse_json_plan cfg depth q (Rows rows) c = Inl NoRootIdentified)
        = (make_node_map (plan_rows cfg rows) [] = Inr [])"
  proof
    assume "make_node_map (plan_rows cfg rows) [] = Inr []"
    then show "sqlserver_parse_json_plan cfg depth q (Rows rows) c = Inl NoRootIdentified"
      by (simp add: sqlserver_parse_json_plan_def build_from_rows_def ebind_def choose_root_def)
  next
    assume a: "sqlserver_parse_json_plan cfg depth q (Rows rows) c = Inl NoRootIdentified"
    then have b: "build_from_rows cfg depth rows = Inl NoRootIdentified"
      by (auto simp: sqlserver_parse_json_plan_def ebind_def split: sum.splits)
    show "make_node_map (plan_rows cfg rows) [] = Inr []"
    proof (cases "make_node_map (plan_rows cfg rows) []")
      case (Inl e)
      with b have "e = NoRootIdentified" by (simp add: build_from_rows_def ebind_def)
      with Inl make_node_map_error show ?thesis by (auto simp: builtin_error_def)
    next
      case (Inr nm)
      show ?thesis
      proof (cases "link_nodes nm (map (\<lambda>kv. (fst kv, [])) nm) None")
        case (Inl e)
        with b Inr have "e = NoRootIdentified" by (simp add: build_from_rows_def ebind_def)
        with Inl link_nodes_error show ?thesis by (auto simp: builtin_error_def)
      next
        case r: (Inr res)
        obtain cm rid where res: "res = (cm, rid)" by (cases res)
        show ?thesis
        proof (cases "choose_root nm rid")
          case None
          then have "nm = []" by (auto simp: choose_root_def split: if_splits)
          with Inr show ?thesis by simp
        next
          case (Some r0)
          with b Inr r res have "build_node nm cm depth r0 = Inl NoRootIdentified"
            by (simp add: build_from_rows_def ebind_def)
          then have "builtin_error NoRootIdentified" by (rule build_node_error)
          then show ?thesis by (simp add: builtin_error_def)
        qed
      qed
    qed
  qed
qed

theorem no_root_errors_witness:
  "find_relop (Element ''ShowPlanXML'' [] []) = None
   \<and> sqlserver_parse_json_plan default_config (Suc 0) [] (XmlText (Some (Element ''ShowPlanXML'' [] []))) 0
       = Inl NoRelOpFound
   \<and> make_node_map (plan_rows default_config []) [] = Inr []
   \<and> sqlserver_parse_json_plan default_config (Suc 0) [] (Rows []) 0 = Inl NoRootIdentified"
proof -
  have a: "find_relop (Element ''ShowPlanXML'' [] []) = None"
    by (simp add: find_relop_def)
  have b: "make_node_map (plan_rows default_config []) [] = Inr []"
    by (simp add: plan_rows_def)
  from a b no_root_errors [of default_config "Suc 0" "[]" "Element ''ShowPlanXML'' [] []" 0 "[]"]
  show ?thesis
    by (simp del: build_relop.simps build_node.simps)
qed

text \<open>
  C9 as the spec states it fails: parsing also fails when a root is identified. The
  single row below has a null parent reference of 0 and so is the root, and the parse
  raises \<^verbatim>\<open>AttributeError\<close> (\<^verbatim>\<open>physical.lower()\<close> on \<^verbatim>\<open>None\<close>). And a document whose root
  element is itself the only \<^verbatim>\<open>RelOp\<close> is refused although a \<^verbatim>\<open>RelOp\<close> element exists.
\<close>

theorem parse_fails_with_a_root:
  "make_node_map (plan_rows default_config [null_operator_row]) [] = Inr [(1, zip columns null_operator_row)]
   \<and> link_nodes [(1, zip columns null_operator_row)] [(1, [])] None = Inr ([(1, [])], Some 1)
   \<and> sqlserver_parse_json_plan default_config (Suc (Suc 0)) [] (Rows [null_operator_row]) 0 = Inl AttributeError
   \<and> tag (Element ''RelOp'' [(''PhysicalOp'', ''Sort'')] []) = ''RelOp''
   \<and> sqlserver_parse_json_plan default_config (Suc (Suc 0)) []
        (XmlText (Some (Element ''RelOp'' [(''PhysicalOp'', ''Sort'')] []))) 0 = Inl NoRelOpFound"
  by (simp add: null_operator_row_def default_config_def plan_rows_def columns_def build_from_rows_def
        imap_set_def choose_root_def row_operator_def extract_top_limit_def sql_simps str_simps
        ebind_def Let_def dict_get_def py_str_def)

subsection \<open>The exact cardinality defaults to the estimated one\<close>

























subsection \<open>Coercions that fail\<close>






subsection \<open>Leaves and inner nodes\<close>










end
